theory Spec2Isabelle
  imports Main
begin

section \<open>Errors and results\<close>

text \<open>
  Every failure of the TypeScript sources is a \<^verbatim>\<open>throw new Error(msg)\<close>; it is modelled as
  the value \<open>Error msg\<close>. The construct tree and the token machinery of the core library
  are not part of the sources at hand; the failures their specification names are further
  constructors. A call returns its outcome together with the state of the receiver at the
  moment it returned or threw, so that a mutation made before a throw stays visible.
\<close>

datatype error =
    Error string
  | DuplicateIdError string
  | ResolutionError error
  | SynthesisError "string list" error

text \<open>
  The specification calls the failure of \<^verbatim>\<open>addAdjustment\<close> \<open>InvalidTierError\<close>; the source raises
  a plain \<^verbatim>\<open>Error\<close> with this message.
\<close>

definition InvalidTierError :: error where
  "InvalidTierError = Error ''At least one of lowerBound or upperBound is required''"

section \<open>Tokens\<close>

text \<open>
  Modelled from the spec: the class \<^verbatim>\<open>Token\<close> of the core library is missing from the sources.
  A token is either a constant or a zero-argument producer. The producers of the sources
  are closures over \<^verbatim>\<open>this\<close>, read when the token is resolved: a producer is a function of
  the state of the object it closes over, and, being arbitrary code, it may fail and may
  change that state. \<open>resolve\<close> returns the constant, or invokes the producer and returns
  its result; a failure of the producer is propagated as a \<open>ResolutionError\<close> carrying the
  cause (the provenance of the token is not modelled).
\<close>

datatype ('s, 'a) Token =
    Constant 'a
  | Lazy "'s \<Rightarrow> (error + 'a) \<times> 's"

definition makeConstant :: "'a \<Rightarrow> ('s, 'a) Token" where
  "makeConstant v = Constant v"

definition makeLazy :: "('s \<Rightarrow> (error + 'a) \<times> 's) \<Rightarrow> ('s, 'a) Token" where
  "makeLazy producer = Lazy producer"

definition resolve :: "('s, 'a) Token \<Rightarrow> 's \<Rightarrow> (error + 'a) \<times> 's" where
  "resolve t s =
     (case t of
        Constant v \<Rightarrow> (Inr v, s)
      | Lazy producer \<Rightarrow>
          (case producer s of
             (Inl e, s') \<Rightarrow> (Inl (ResolutionError e), s')
           | (Inr v, s') \<Rightarrow> (Inr v, s')))"

text \<open>
  Modelled from the spec: \<^verbatim>\<open>node.uniqueId\<close> of the core library is missing from the sources.
  It is derived by hashing the full path of the node, root to node; the hash function is
  a parameter.
\<close>

definition uniqueId :: "(string list \<Rightarrow> string) \<Rightarrow> string list \<Rightarrow> string" where
  "uniqueId hash path = hash path"

section \<open>Step scaling action\<close>

text \<open>
  JavaScript numbers are only stored and copied by this class, never computed with: the
  number type is the parameter \<open>'n\<close>. An optional property is an \<open>option\<close>, \<open>None\<close> being
  \<^verbatim>\<open>undefined\<close>.
\<close>

datatype AdjustmentType = ChangeInCapacity | PercentChangeInCapacity | ExactCapacity

datatype MetricAggregationType = Average | Minimum | Maximum

record 'n AdjustmentTier =
  adjustment :: 'n
  lowerBound :: "'n option"
  upperBound :: "'n option"

record 'n StepAdjustmentProperty =
  metricIntervalLowerBound :: "'n option"
  metricIntervalUpperBound :: "'n option"
  scalingAdjustment :: 'n

text \<open>\<open>scalableTargetId\<close> stands for \<^verbatim>\<open>props.scalingTarget.scalableTargetId\<close>.\<close>

record 'n StepScalingActionProps =
  scalableTargetId :: string
  policyName :: "string option"
  adjustmentType :: "AdjustmentType option"
  cooldownSec :: "'n option"
  minAdjustmentMagnitude :: "'n option"
  metricAggregationType :: "MetricAggregationType option"

text \<open>
  The properties handed to \<^verbatim>\<open>CfnScalingPolicy\<close>, without the token \<open>stepAdjustments\<close>,
  which is the definition \<open>stepAdjustments\<close> below.
\<close>

record 'n CfnScalingPolicyProps =
  cfnPolicyName :: string
  cfnPolicyType :: string
  cfnScalingTargetId :: string
  cfnAdjustmentType :: "AdjustmentType option"
  cfnCooldown :: "'n option"
  cfnMinAdjustmentMagnitude :: "'n option"
  cfnMetricAggregationType :: "MetricAggregationType option"

record 'n StepScalingAction =
  nodePath :: "string list"
  resource :: "'n CfnScalingPolicyProps"
  scalingPolicyArn :: string
  adjustments :: "'n StepAdjustmentProperty list"

text \<open>
  The constructor. \<open>scope\<close> is the path of the parent construct; the node of the new
  construct has the path \<open>scope @ [ident]\<close> (\<open>ident\<close> is the source's \<^verbatim>\<open>id\<close>).
  \<^verbatim>\<open>props.policyName || this.node.uniqueId\<close> takes the generated identifier when the name is
  undefined or the empty string (both are falsy).
  The attribute \<^verbatim>\<open>scalingPolicyArn\<close> of the generated resource class is the parameter
  \<open>arnOf\<close>, applied to the path of the resource.
\<close>

definition StepScalingAction_new ::
  "(string list \<Rightarrow> string) \<Rightarrow> (string list \<Rightarrow> string) \<Rightarrow> string list \<Rightarrow> string \<Rightarrow>
   'n StepScalingActionProps \<Rightarrow> 'n StepScalingAction" where
  "StepScalingAction_new hash arnOf scope ident props =
     \<lparr> nodePath = scope @ [ident],
       resource = \<lparr>
         cfnPolicyName =
           (case policyName props of
              None \<Rightarrow> uniqueId hash (scope @ [ident])
            | Some n \<Rightarrow> if n = [] then uniqueId hash (scope @ [ident]) else n),
         cfnPolicyType = ''StepScaling'',
         cfnScalingTargetId = scalableTargetId props,
         cfnAdjustmentType = adjustmentType props,
         cfnCooldown = cooldownSec props,
         cfnMinAdjustmentMagnitude = minAdjustmentMagnitude props,
         cfnMetricAggregationType = metricAggregationType props \<rparr>,
       scalingPolicyArn = arnOf (scope @ [ident, ''Resource'']),
       adjustments = [] \<rparr>"

text \<open>\<^verbatim>\<open>new cdk.Token(() => this.adjustments)\<close>\<close>

definition stepAdjustments ::
  "('n StepScalingAction, 'n StepAdjustmentProperty list) Token" where
  "stepAdjustments = makeLazy (\<lambda>this. (Inr (adjustments this), this))"

definition addAdjustment ::
  "'n StepScalingAction \<Rightarrow> 'n AdjustmentTier \<Rightarrow> (error + unit) \<times> 'n StepScalingAction" where
  "addAdjustment this tier =
     (if lowerBound tier = None \<and> upperBound tier = None
      then (Inl (Error ''At least one of lowerBound or upperBound is required''), this)
      else (Inr (),
            this\<lparr> adjustments := adjustments this @
              [\<lparr> metricIntervalLowerBound = lowerBound tier,
                 metricIntervalUpperBound = upperBound tier,
                 scalingAdjustment = adjustment tier \<rparr>] \<rparr>))"

text \<open>
  A caller making the calls \<^verbatim>\<open>addAdjustment(t1); addAdjustment(t2); ...\<close> in sequence: the
  first exception ends the sequence.
\<close>

fun addAdjustment_calls ::
  "'n StepScalingAction \<Rightarrow> 'n AdjustmentTier list \<Rightarrow> (error + unit) \<times> 'n StepScalingAction" where
  "addAdjustment_calls this [] = (Inr (), this)"
| "addAdjustment_calls this (t # ts) =
     (case addAdjustment this t of
        (Inl e, this') \<Rightarrow> (Inl e, this')
      | (Inr _, this') \<Rightarrow> addAdjustment_calls this' ts)"

section \<open>Alarm\<close>

datatype ComparisonOperator =
    GreaterThanOrEqualToThreshold
  | GreaterThanThreshold
  | LessThanThreshold
  | LessThanOrEqualToThreshold

datatype TreatMissingData = Breaching | NotBreaching | Ignore | Missing

text \<open>
  The metric of an alarm is a value of the class \<^verbatim>\<open>Metric\<close>, which is not part of the sources:
  it is the parameter \<open>'m\<close>, stored as it is. \<open>alarmNameProp\<close> is \<^verbatim>\<open>props.alarmName\<close>.
\<close>

record ('n, 'm) AlarmProps =
  metric :: 'm
  alarmNameProp :: "string option"
  alarmDescription :: "string option"
  comparisonOperator :: "ComparisonOperator option"
  threshold :: 'n
  evaluationPeriods :: 'n
  evaluateLowSampleCountPercentile :: "string option"
  treatMissingData :: "TreatMissingData option"
  actionsEnabled :: "bool option"
  datapointsToAlarm :: "'n option"

text \<open>
  The properties handed to \<^verbatim>\<open>CfnAlarm\<close>, without the three action tokens, which are the
  definitions \<open>alarmActions\<close>, \<open>insufficientDataActions\<close> and \<open>okActions\<close> below. The fields
  that \<^verbatim>\<open>metricJson\<close> derives from the metric are kept as the metric itself.
\<close>

record ('n, 'm) CfnAlarmProps =
  cfnAlarmDescription :: "string option"
  cfnAlarmName :: "string option"
  cfnComparisonOperator :: ComparisonOperator
  cfnThreshold :: 'n
  cfnDatapointsToAlarm :: "'n option"
  cfnEvaluateLowSampleCountPercentile :: "string option"
  cfnEvaluationPeriods :: 'n
  cfnTreatMissingData :: "TreatMissingData option"
  cfnActionsEnabled :: "bool option"
  cfnMetric :: 'm

text \<open>
  The three backing sequences are optional fields: \<open>None\<close> is \<^verbatim>\<open>undefined\<close>, \<open>Some []\<close> the
  empty array. The annotation of the alarm, a label formatted from floating-point
  numbers, is left out.
\<close>

record ('n, 'm) Alarm =
  alarmArn :: string
  alarmName :: string
  alarmMetric :: 'm
  alarmResource :: "('n, 'm) CfnAlarmProps"
  alarmActionArns :: "string list option"
  insufficientDataActionArns :: "string list option"
  okActionArns :: "string list option"

text \<open>
  The constructor. The attributes \<^verbatim>\<open>alarmArn\<close> and \<^verbatim>\<open>alarmName\<close> of the generated resource class
  are the parameters \<open>arn\<close> and \<open>name\<close>. The field initialisers leave the three sequences
  undefined.
\<close>

definition Alarm_new :: "string \<Rightarrow> string \<Rightarrow> ('n, 'm) AlarmProps \<Rightarrow> ('n, 'm) Alarm" where
  "Alarm_new arn name props =
     \<lparr> alarmArn = arn,
       alarmName = name,
       alarmMetric = metric props,
       alarmResource = \<lparr>
         cfnAlarmDescription = alarmDescription props,
         cfnAlarmName = alarmNameProp props,
         cfnComparisonOperator =
           (case comparisonOperator props of
              None \<Rightarrow> GreaterThanOrEqualToThreshold
            | Some c \<Rightarrow> c),
         cfnThreshold = threshold props,
         cfnDatapointsToAlarm = datapointsToAlarm props,
         cfnEvaluateLowSampleCountPercentile = evaluateLowSampleCountPercentile props,
         cfnEvaluationPeriods = evaluationPeriods props,
         cfnTreatMissingData = treatMissingData props,
         cfnActionsEnabled = actionsEnabled props,
         cfnMetric = metric props \<rparr>,
       alarmActionArns = None,
       insufficientDataActionArns = None,
       okActionArns = None \<rparr>"

text \<open>
  \<^verbatim>\<open>new Token(() => this.alarmActionArns).toList()\<close> and its two siblings. \<^verbatim>\<open>toList\<close> only
  changes the encoding of the unresolved token; the resolved value is the producer's. A
  token that resolves to \<open>None\<close> (\<^verbatim>\<open>undefined\<close>) leaves its field out of the output.
\<close>

definition alarmActions :: "(('n, 'm) Alarm, string list option) Token" where
  "alarmActions = makeLazy (\<lambda>this. (Inr (alarmActionArns this), this))"

definition insufficientDataActions :: "(('n, 'm) Alarm, string list option) Token" where
  "insufficientDataActions = makeLazy (\<lambda>this. (Inr (insufficientDataActionArns this), this))"

definition okActions :: "(('n, 'm) Alarm, string list option) Token" where
  "okActions = makeLazy (\<lambda>this. (Inr (okActionArns this), this))"

text \<open>
  An alarm action is an object with a method \<^verbatim>\<open>bind(scope, alarm)\<close>; the implementations are
  not part of the sources. The method is a function of the alarm it is handed (scope and
  alarm are both \<^verbatim>\<open>this\<close>), returning the action's configuration.
\<close>

record AlarmActionConfig =
  alarmActionArn :: string

datatype ('n, 'm) IAlarmAction =
  IAlarmAction (bind: "('n, 'm) Alarm \<Rightarrow> AlarmActionConfig")

text \<open>
  The three add methods. The sequence is initialised when undefined, then every action is
  bound, in order, and the ARNs are pushed.
\<close>

definition addAlarmAction ::
  "('n, 'm) Alarm \<Rightarrow> ('n, 'm) IAlarmAction list \<Rightarrow> ('n, 'm) Alarm" where
  "addAlarmAction this actions =
     (let this1 = (if alarmActionArns this = None then this\<lparr> alarmActionArns := Some [] \<rparr> else this);
          arns = map (\<lambda>a. alarmActionArn (bind a this1)) actions
      in this1\<lparr> alarmActionArns := map_option (\<lambda>xs. xs @ arns) (alarmActionArns this1) \<rparr>)"

definition addInsufficientDataAction ::
  "('n, 'm) Alarm \<Rightarrow> ('n, 'm) IAlarmAction list \<Rightarrow> ('n, 'm) Alarm" where
  "addInsufficientDataAction this actions =
     (let this1 = (if insufficientDataActionArns this = None
                   then this\<lparr> insufficientDataActionArns := Some [] \<rparr> else this);
          arns = map (\<lambda>a. alarmActionArn (bind a this1)) actions
      in this1\<lparr> insufficientDataActionArns :=
           map_option (\<lambda>xs. xs @ arns) (insufficientDataActionArns this1) \<rparr>)"

definition addOkAction ::
  "('n, 'm) Alarm \<Rightarrow> ('n, 'm) IAlarmAction list \<Rightarrow> ('n, 'm) Alarm" where
  "addOkAction this actions =
     (let this1 = (if okActionArns this = None then this\<lparr> okActionArns := Some [] \<rparr> else this);
          arns = map (\<lambda>a. alarmActionArn (bind a this1)) actions
      in this1\<lparr> okActionArns := map_option (\<lambda>xs. xs @ arns) (okActionArns this1) \<rparr>)"

section \<open>Construct tree\<close>

text \<open>
  Modelled from the spec: the class \<^verbatim>\<open>Construct\<close> of the core library is missing from the
  sources. A node has an id and an ordered mapping from ids to children, in insertion
  order. \<open>createChild\<close> fails with \<open>DuplicateIdError\<close> if the id already exists among the
  children of the parent, and appends the child otherwise; \<open>tryFindChild\<close> looks an id up.
  There is no operation that removes a child.
\<close>

record 'c ConstructNode =
  nodeId :: string
  children :: "(string \<times> 'c) list"

definition tryFindChild :: "'c ConstructNode \<Rightarrow> string \<Rightarrow> 'c option" where
  "tryFindChild node name = map_of (children node) name"

definition createChild ::
  "'c ConstructNode \<Rightarrow> string \<Rightarrow> 'c \<Rightarrow> (error + unit) \<times> 'c ConstructNode" where
  "createChild parent name child =
     (if name \<in> set (map fst (children parent))
      then (Inl (DuplicateIdError name), parent)
      else (Inr (), parent\<lparr> children := children parent @ [(name, child)] \<rparr>))"

section \<open>Policy statements\<close>

text \<open>
  Modelled from the spec: the classes \<^verbatim>\<open>PolicyStatement\<close> and \<^verbatim>\<open>PolicyDocument\<close> of the IAM
  library are missing from the sources. A statement is plain structured data: an effect
  (\<open>Allow\<close> unless set otherwise, as the expected statements of the pipeline tests show),
  actions, resources, principals and conditions; the builder methods append to these,
  \<^verbatim>\<open>setCondition\<close> replaces the condition of its operator. A condition maps an operator to the
  key and value it compares.
\<close>

datatype Effect = Allow | Deny

datatype Principal = ServicePrincipal string

record PolicyStatement =
  stmtEffect :: Effect
  stmtActions :: "string list"
  stmtResources :: "string list"
  stmtPrincipals :: "Principal list"
  stmtConditions :: "(string \<times> (string \<times> string) list) list"

definition PolicyStatement_new :: PolicyStatement where
  "PolicyStatement_new =
     \<lparr> stmtEffect = Allow, stmtActions = [], stmtResources = [], stmtPrincipals = [],
       stmtConditions = [] \<rparr>"

definition addAction :: "string \<Rightarrow> PolicyStatement \<Rightarrow> PolicyStatement" where
  "addAction a s = s\<lparr> stmtActions := stmtActions s @ [a] \<rparr>"

definition addResource :: "string \<Rightarrow> PolicyStatement \<Rightarrow> PolicyStatement" where
  "addResource r s = s\<lparr> stmtResources := stmtResources s @ [r] \<rparr>"

definition addServicePrincipal :: "string \<Rightarrow> PolicyStatement \<Rightarrow> PolicyStatement" where
  "addServicePrincipal p s = s\<lparr> stmtPrincipals := stmtPrincipals s @ [ServicePrincipal p] \<rparr>"

definition setCondition ::
  "string \<Rightarrow> (string \<times> string) list \<Rightarrow> PolicyStatement \<Rightarrow> PolicyStatement" where
  "setCondition key v s =
     s\<lparr> stmtConditions := filter (\<lambda>c. fst c \<noteq> key) (stmtConditions s) @ [(key, v)] \<rparr>"

section \<open>Topics\<close>

text \<open>The members of \<^verbatim>\<open>SubscriptionProtocol\<close> that the sources refer to.\<close>

datatype SubscriptionProtocol = Http | Https | Email | EmailJson | Sqs | Lambda

text \<open>\<open>topic\<close> is the ARN of the topic that the property \<^verbatim>\<open>topic: this\<close> refers to.\<close>

record SubscriptionProps =
  topic :: string
  endpoint :: string
  protocol :: SubscriptionProtocol
  rawMessageDelivery :: "bool option"

record Subscription =
  subscriptionName :: string
  subscriptionProps :: SubscriptionProps

text \<open>
  The constructs that the sources create below a topic or a queue. The content of a
  policy construct is held by the field \<open>policy\<close> of its owner, which is the reference the
  source keeps; the tree holds its place.
\<close>

datatype Child = SubscriptionChild SubscriptionProps | PolicyChild

text \<open>
  Modelled from the spec: the class \<^verbatim>\<open>Subscription\<close> is missing from the sources. Its
  constructor registers the new construct as a child of its scope.
\<close>

definition Subscription_new ::
  "Child ConstructNode \<Rightarrow> string \<Rightarrow> SubscriptionProps \<Rightarrow>
   (error + Subscription) \<times> Child ConstructNode" where
  "Subscription_new scope name props =
     (case createChild scope name (SubscriptionChild props) of
        (Inl e, scope') \<Rightarrow> (Inl e, scope')
      | (Inr _, scope') \<Rightarrow>
          (Inr \<lparr> subscriptionName = name, subscriptionProps = props \<rparr>, scope'))"

text \<open>
  Modelled from the spec: the class \<^verbatim>\<open>TopicPolicy\<close> is missing from the sources. Its
  constructor registers the new construct as a child of its scope; its document starts
  empty, and \<^verbatim>\<open>document.addStatement\<close> appends. \<open>policyTopics\<close> are the ARNs of the topics of
  the property \<^verbatim>\<open>topics\<close>.
\<close>

record TopicPolicy =
  policyTopics :: "string list"
  document :: "PolicyStatement list"

definition TopicPolicy_new ::
  "Child ConstructNode \<Rightarrow> string \<Rightarrow> string list \<Rightarrow>
   (error + TopicPolicy) \<times> Child ConstructNode" where
  "TopicPolicy_new scope name topics =
     (case createChild scope name PolicyChild of
        (Inl e, scope') \<Rightarrow> (Inl e, scope')
      | (Inr _, scope') \<Rightarrow> (Inr \<lparr> policyTopics = topics, document = [] \<rparr>, scope'))"

definition addStatement :: "PolicyStatement \<Rightarrow> TopicPolicy \<Rightarrow> TopicPolicy" where
  "addStatement statement p = p\<lparr> document := document p @ [statement] \<rparr>"

text \<open>
  \<^verbatim>\<open>TopicBase\<close>. The abstract members \<^verbatim>\<open>topicArn\<close>, \<^verbatim>\<open>topicName\<close> and \<^verbatim>\<open>autoCreatePolicy\<close> are set by
  the subclasses, which are not part of the sources; the private field \<^verbatim>\<open>policy\<close> has no
  initialiser and starts undefined.
\<close>

record Topic =
  topicNode :: "Child ConstructNode"
  topicArn :: string
  topicName :: string
  autoCreatePolicy :: bool
  policy :: "TopicPolicy option"

definition TopicBase_new :: "string \<Rightarrow> string \<Rightarrow> string \<Rightarrow> bool \<Rightarrow> Topic" where
  "TopicBase_new ident arn name auto =
     \<lparr> topicNode = \<lparr> nodeId = ident, children = [] \<rparr>,
       topicArn = arn, topicName = name, autoCreatePolicy = auto, policy = None \<rparr>"

definition subscribe ::
  "Topic \<Rightarrow> string \<Rightarrow> string \<Rightarrow> SubscriptionProtocol \<Rightarrow> bool option \<Rightarrow>
   (error + Subscription) \<times> Topic" where
  "subscribe this name endpoint' protocol' rawMessageDelivery' =
     (case Subscription_new (topicNode this) name
             \<lparr> topic = topicArn this, endpoint = endpoint', protocol = protocol',
               rawMessageDelivery = rawMessageDelivery' \<rparr> of
        (r, node') \<Rightarrow> (r, this\<lparr> topicNode := node' \<rparr>))"

record EmailSubscriptionOptions =
  json :: "bool option"

definition subscribeEmail ::
  "Topic \<Rightarrow> string \<Rightarrow> string \<Rightarrow> EmailSubscriptionOptions option \<Rightarrow>
   (error + Subscription) \<times> Topic" where
  "subscribeEmail this name emailAddress options =
     (let protocol' =
            (case options of
               None \<Rightarrow> Email
             | Some opts \<Rightarrow> if json opts = Some True then EmailJson else Email)
      in case Subscription_new (topicNode this) name
                \<lparr> topic = topicArn this, endpoint = emailAddress, protocol = protocol',
                  rawMessageDelivery = None \<rparr> of
           (r, node') \<Rightarrow> (r, this\<lparr> topicNode := node' \<rparr>))"

text \<open>\<^verbatim>\<open>String.prototype.startsWith\<close>\<close>

definition startsWith :: "string \<Rightarrow> string \<Rightarrow> bool" where
  "startsWith s p = (take (length p) s = p)"

definition subscribeUrl ::
  "Topic \<Rightarrow> string \<Rightarrow> string \<Rightarrow> bool option \<Rightarrow> (error + Subscription) \<times> Topic" where
  "subscribeUrl this name url rawMessageDelivery' =
     (if \<not> startsWith url ''http://'' \<and> \<not> startsWith url ''https://''
      then (Inl (Error ''URL must start with either http:// or https://''), this)
      else
        (let protocol' = (if startsWith url ''https:'' then Https else Http)
         in case Subscription_new (topicNode this) name
                   \<lparr> topic = topicArn this, endpoint = url, protocol = protocol',
                     rawMessageDelivery = rawMessageDelivery' \<rparr> of
              (r, node') \<Rightarrow> (r, this\<lparr> topicNode := node' \<rparr>)))"

definition addToResourcePolicy ::
  "Topic \<Rightarrow> PolicyStatement \<Rightarrow> (error + unit) \<times> Topic" where
  "addToResourcePolicy this statement =
     (case (if policy this = None \<and> autoCreatePolicy this
            then (case TopicPolicy_new (topicNode this) ''Policy'' [topicArn this] of
                    (Inl e, node') \<Rightarrow> (Inl e, this\<lparr> topicNode := node' \<rparr>)
                  | (Inr p, node') \<Rightarrow> (Inr (), this\<lparr> topicNode := node', policy := Some p \<rparr>))
            else (Inr (), this)) of
        (Inl e, this1) \<Rightarrow> (Inl e, this1)
      | (Inr _, this1) \<Rightarrow>
          (case policy this1 of
             None \<Rightarrow> (Inr (), this1)
           | Some p \<Rightarrow> (Inr (), this1\<lparr> policy := Some (addStatement statement p) \<rparr>)))"

text \<open>
  A caller attaching the statements of a list in sequence: the first exception ends the
  sequence.
\<close>

fun addToResourcePolicy_calls ::
  "Topic \<Rightarrow> PolicyStatement list \<Rightarrow> (error + unit) \<times> Topic" where
  "addToResourcePolicy_calls this [] = (Inr (), this)"
| "addToResourcePolicy_calls this (s # ss) =
     (case addToResourcePolicy this s of
        (Inl e, this') \<Rightarrow> (Inl e, this')
      | (Inr _, this') \<Rightarrow> addToResourcePolicy_calls this' ss)"

text \<open>
  Modelled from the spec: the queue of the SQS library is missing from the sources. A
  queue is a resource reference like a topic: attaching a policy statement creates or
  reuses the policy resource of a live queue and is dropped by an imported one.
  \<open>queueIsConstruct\<close> is the outcome of the run-time probe \<^verbatim>\<open>Construct.isConstruct(queue)\<close>.
\<close>

record Queue =
  queueIsConstruct :: bool
  queueNode :: "Child ConstructNode"
  queueArn :: string
  queueAutoCreatePolicy :: bool
  queuePolicy :: "TopicPolicy option"

definition Queue_addToResourcePolicy ::
  "Queue \<Rightarrow> PolicyStatement \<Rightarrow> (error + unit) \<times> Queue" where
  "Queue_addToResourcePolicy queue statement =
     (case (if queuePolicy queue = None \<and> queueAutoCreatePolicy queue
            then (case TopicPolicy_new (queueNode queue) ''Policy'' [] of
                    (Inl e, node') \<Rightarrow> (Inl e, queue\<lparr> queueNode := node' \<rparr>)
                  | (Inr p, node') \<Rightarrow>
                      (Inr (), queue\<lparr> queueNode := node', queuePolicy := Some p \<rparr>))
            else (Inr (), queue)) of
        (Inl e, queue1) \<Rightarrow> (Inl e, queue1)
      | (Inr _, queue1) \<Rightarrow>
          (case queuePolicy queue1 of
             None \<Rightarrow> (Inr (), queue1)
           | Some p \<Rightarrow> (Inr (), queue1\<lparr> queuePolicy := Some (addStatement statement p) \<rparr>)))"

text \<open>
  \<^verbatim>\<open>subscribeQueue\<close> changes the queue only: the subscription is created under the consuming
  construct. The outcome carries the state of the queue.
\<close>

definition subscribeQueue ::
  "Topic \<Rightarrow> Queue \<Rightarrow> bool option \<Rightarrow> (error + Subscription) \<times> Queue" where
  "subscribeQueue this queue rawMessageDelivery' =
     (if \<not> queueIsConstruct queue
      then (Inl (Error ''The supplied Queue object must be an instance of Construct''), queue)
      else
        (let subscriptionName' = nodeId (topicNode this) @ ''Subscription''
         in if tryFindChild (queueNode queue) subscriptionName' \<noteq> None
            then (Inl (Error (''A subscription between the topic '' @ nodeId (topicNode this) @
                              '' and the queue '' @ nodeId (queueNode queue) @
                              '' already exists'')), queue)
            else
              (case Subscription_new (queueNode queue) subscriptionName'
                      \<lparr> topic = topicArn this, endpoint = queueArn queue, protocol = Sqs,
                        rawMessageDelivery = rawMessageDelivery' \<rparr> of
                 (Inl e, node') \<Rightarrow> (Inl e, queue\<lparr> queueNode := node' \<rparr>)
               | (Inr sub, node') \<Rightarrow>
                   (case Queue_addToResourcePolicy (queue\<lparr> queueNode := node' \<rparr>)
                           (setCondition ''ArnEquals'' [(''aws:SourceArn'', topicArn this)]
                             (addServicePrincipal ''sns.amazonaws.com''
                               (addAction ''sqs:SendMessage''
                                 (addResource (queueArn queue) PolicyStatement_new)))) of
                      (Inl e, queue') \<Rightarrow> (Inl e, queue')
                    | (Inr _, queue') \<Rightarrow> (Inr sub, queue')))))"

section \<open>Publishing to a topic from a state machine\<close>

text \<open>
  The value of a task input is any JavaScript value; \<open>JsUndefined\<close> is \<^verbatim>\<open>undefined\<close>. An object
  literal is the list of its fields in source order, a rendered object a map from keys to
  values.
\<close>

datatype JsValue =
    JsUndefined
  | JsString string
  | JsNumber int
  | JsBoolean bool
  | JsArray "JsValue list"
  | JsObject "(string \<times> JsValue) list"

record TaskInput =
  taskInputValue :: JsValue

record PublishToTopicProps =
  message :: TaskInput
  messagePerSubscriptionType :: "bool option"
  subject :: "string option"

text \<open>The two constructor parameters, \<^verbatim>\<open>topic\<close> and \<^verbatim>\<open>props\<close>.\<close>

record PublishToTopic =
  publishTopic :: Topic
  publishProps :: PublishToTopicProps

record StepFunctionsTaskConfig =
  resourceArn :: string
  policyStatements :: "PolicyStatement list"
  parameters :: "string \<rightharpoonup> JsValue"

text \<open>
  \<^verbatim>\<open>bind\<close> ignores its argument. \<^verbatim>\<open>FieldUtils.renderObject\<close> of the Step Functions library is not
  part of the sources and is the parameter \<open>renderObject\<close>. The object spread
  \<^verbatim>\<open>{ TopicArn: ..., ...rendered }\<close> lets a rendered key override \<^verbatim>\<open>TopicArn\<close>.
\<close>

definition PublishToTopic_bind ::
  "((string \<times> JsValue) list \<Rightarrow> (string \<rightharpoonup> JsValue)) \<Rightarrow> PublishToTopic \<Rightarrow>
   StepFunctionsTaskConfig" where
  "PublishToTopic_bind renderObject this =
     \<lparr> resourceArn = ''arn:aws:states:::sns:publish'',
       policyStatements =
         [addResource (topicArn (publishTopic this))
            (addAction ''sns:Publish'' PolicyStatement_new)],
       parameters =
         [''TopicArn'' \<mapsto> JsString (topicArn (publishTopic this))] ++
         renderObject
           [(''Message'', taskInputValue (message (publishProps this))),
            (''MessageStructure'',
               if messagePerSubscriptionType (publishProps this) = Some True
               then JsString ''json'' else JsUndefined),
            (''Subject'',
               case subject (publishProps this) of
                 None \<Rightarrow> JsUndefined
               | Some s \<Rightarrow> JsString s)] \<rparr>"

text \<open>
  What the properties of \<^verbatim>\<open>bind\<close> need of the renderer, for an object whose keys are distinct
  and do not end with the path suffix \<^verbatim>\<open>.$\<close>: every rendered key comes from a field that is
  not undefined, as the key of the field or that key with the path suffix, and a field
  holding the literal string \<^verbatim>\<open>json\<close> is rendered as it is.
\<close>

definition endsWith :: "string \<Rightarrow> string \<Rightarrow> bool" where
  "endsWith s p = (length p \<le> length s \<and> drop (length s - length p) s = p)"

definition plainKeys :: "(string \<times> JsValue) list \<Rightarrow> bool" where
  "plainKeys obj = (distinct (map fst obj) \<and> list_all (\<lambda>f. \<not> endsWith (fst f) ''.$'') obj)"

definition rendersFields :: "((string \<times> JsValue) list \<Rightarrow> (string \<rightharpoonup> JsValue)) \<Rightarrow> bool" where
  "rendersFields renderObject =
     (\<forall>obj k. plainKeys obj \<longrightarrow>
        (renderObject obj k \<noteq> None \<longrightarrow>
           (\<exists>f \<in> set obj. snd f \<noteq> JsUndefined \<and> (k = fst f \<or> k = fst f @ ''.$''))) \<and>
        (map_of obj k = Some (JsString ''json'') \<longrightarrow>
           renderObject obj k = Some (JsString ''json'')))"

section \<open>Merging permission statements\<close>

text \<open>
  Modelled from the spec: the code of the pipeline actions that attaches permission
  statements to the role of the pipeline is missing from the sources; only its test is
  there. Statements with identical effect, action set and condition are merged by
  resource-list union rather than duplicated, in an explicit merge step of the
  attachment path: a statement is merged into the first statement of the policy that has
  its effect, action set and condition, and appended when there is none.
\<close>

text \<open>
  The condition of a statement as the mapping it is: from an operator to the mapping from
  keys to values. Two conditions are identical when they are the same mapping, in
  whatever order they were written.
\<close>

definition conditionMap ::
  "(string \<times> (string \<times> string) list) list \<Rightarrow> string \<Rightarrow> (string \<Rightarrow> string option) option" where
  "conditionMap cs operator = map_option map_of (map_of cs operator)"

text \<open>
  Whether two conditions are identical, computed from the lists: they have the same
  operators, and under each operator the same keys with the same values.
\<close>

definition sameEntries :: "(string \<times> string) list \<Rightarrow> (string \<times> string) list \<Rightarrow> bool" where
  "sameEntries xs ys =
     (set (map fst xs) = set (map fst ys) \<and>
      list_all (\<lambda>k. map_of xs k = map_of ys k) (map fst xs))"

definition sameCondition ::
  "(string \<times> (string \<times> string) list) list \<Rightarrow> (string \<times> (string \<times> string) list) list \<Rightarrow> bool" where
  "sameCondition cs ds =
     (set (map fst cs) = set (map fst ds) \<and>
      list_all (\<lambda>operator. case (map_of cs operator, map_of ds operator) of
                   (Some xs, Some ys) \<Rightarrow> sameEntries xs ys
                 | _ \<Rightarrow> False) (map fst cs))"

definition sameTemplate :: "PolicyStatement \<Rightarrow> PolicyStatement \<Rightarrow> bool" where
  "sameTemplate s t =
     (stmtEffect s = stmtEffect t \<and> set (stmtActions s) = set (stmtActions t) \<and>
      sameCondition (stmtConditions s) (stmtConditions t))"

definition unionResources :: "string list \<Rightarrow> string list \<Rightarrow> string list" where
  "unionResources xs ys = xs @ filter (\<lambda>y. y \<notin> set xs) (remdups ys)"

fun attachStatement :: "PolicyStatement list \<Rightarrow> PolicyStatement \<Rightarrow> PolicyStatement list" where
  "attachStatement [] s = [s]"
| "attachStatement (t # ts) s =
     (if sameTemplate t s
      then t\<lparr> stmtResources := unionResources (stmtResources t) (stmtResources s) \<rparr> # ts
      else t # attachStatement ts s)"

text \<open>No two statements of a policy have the same effect, action set and condition.\<close>

fun distinctTemplates :: "PolicyStatement list \<Rightarrow> bool" where
  "distinctTemplates [] = True"
| "distinctTemplates (t # ts) = (list_all (\<lambda>u. \<not> sameTemplate t u) ts \<and> distinctTemplates ts)"

section \<open>Synthesis\<close>

text \<open>
  Modelled from the spec: the synthesizer of the core library and the construct tree it
  walks are missing from the sources. A construct has an id, the type name of the resource
  it declares (none for a logical grouping), its declared properties, each a token over
  the state of the program, and its children in insertion order.
\<close>

datatype 's Construct =
  Construct (constructId: string) (typeName: "string option")
    (constructProps: "(string \<times> ('s, JsValue) Token) list")
    (constructChildren: "'s Construct list")

text \<open>
  The structured document: a mapping from the identifier of a resource, its path, to the
  type name and the resolved property mapping of the resource, in the order of the
  traversal.
\<close>

type_synonym StructuredDocument = "(string list \<times> string \<times> (string \<times> JsValue) list) list"

text \<open>
  The declared properties of a node are resolved in their order, each resolution starting
  from the state the one before left. A property whose token resolves to \<^verbatim>\<open>undefined\<close> is
  omitted; one that resolves to an empty sequence is kept.
\<close>

fun resolveProps ::
  "(string \<times> ('s, JsValue) Token) list \<Rightarrow> 's \<Rightarrow> (error + (string \<times> JsValue) list) \<times> 's" where
  "resolveProps [] s = (Inr [], s)"
| "resolveProps (p # ps) s =
     (case resolve (snd p) s of
        (Inl e, s1) \<Rightarrow> (Inl e, s1)
      | (Inr v, s1) \<Rightarrow>
          (case resolveProps ps s1 of
             (Inl e, s2) \<Rightarrow> (Inl e, s2)
           | (Inr kvs, s2) \<Rightarrow>
               (Inr (if v = JsUndefined then kvs else (fst p, v) # kvs), s2)))"

text \<open>
  A single depth-first traversal, children in insertion order. The first failure ends
  the traversal and is reported as a \<open>SynthesisError\<close> with the path of the failing node
  and the cause; there is no partial output. Producers are functions of the state and
  cannot ask for the resolution of another token, so a cyclic resolution does not arise
  in the model.
\<close>

fun synthesizeNode ::
  "string list \<Rightarrow> 's Construct \<Rightarrow> 's \<Rightarrow> (error + StructuredDocument) \<times> 's"
and synthesizeNodes ::
  "string list \<Rightarrow> 's Construct list \<Rightarrow> 's \<Rightarrow> (error + StructuredDocument) \<times> 's" where
  "synthesizeNode scope (Construct ident ty props kids) s =
     (case resolveProps props s of
        (Inl e, s1) \<Rightarrow> (Inl (SynthesisError (scope @ [ident]) e), s1)
      | (Inr kvs, s1) \<Rightarrow>
          (case synthesizeNodes (scope @ [ident]) kids s1 of
             (Inl e, s2) \<Rightarrow> (Inl e, s2)
           | (Inr below, s2) \<Rightarrow>
               (Inr ((case ty of None \<Rightarrow> [] | Some t \<Rightarrow> [(scope @ [ident], t, kvs)]) @ below),
                s2)))"
| "synthesizeNodes scope [] s = (Inr [], s)"
| "synthesizeNodes scope (c # cs) s =
     (case synthesizeNode scope c s of
        (Inl e, s1) \<Rightarrow> (Inl e, s1)
      | (Inr d, s1) \<Rightarrow>
          (case synthesizeNodes scope cs s1 of
             (Inl e, s2) \<Rightarrow> (Inl e, s2)
           | (Inr ds, s2) \<Rightarrow> (Inr (d @ ds), s2)))"

definition synthesize :: "'s Construct \<Rightarrow> 's \<Rightarrow> (error + StructuredDocument) \<times> 's" where
  "synthesize root s = synthesizeNode [] root s"

text \<open>
  What the document of a tree is in a given state, written without the traversal: the
  resource of the node, with the values of its properties in that state, followed by the
  documents of its children in insertion order.
\<close>

definition valueOf :: "('s, JsValue) Token \<Rightarrow> 's \<Rightarrow> JsValue" where
  "valueOf t s = (case fst (resolve t s) of Inl e \<Rightarrow> JsUndefined | Inr v \<Rightarrow> v)"

fun describeNode :: "string list \<Rightarrow> 's Construct \<Rightarrow> 's \<Rightarrow> StructuredDocument" where
  "describeNode scope (Construct ident ty props kids) s =
     (case ty of
        None \<Rightarrow> []
      | Some t \<Rightarrow>
          [(scope @ [ident], t,
            filter (\<lambda>kv. snd kv \<noteq> JsUndefined)
              (map (\<lambda>p. (fst p, valueOf (snd p) s)) props))]) @
     concat (map (\<lambda>c. describeNode (scope @ [ident]) c s) kids)"

text \<open>
  The tokens of a tree, and the tokens that only read: resolving one succeeds in every
  state and leaves the state as it is.
\<close>

fun constructTokens :: "'s Construct \<Rightarrow> ('s, JsValue) Token list" where
  "constructTokens (Construct ident ty props kids) =
     map snd props @ concat (map constructTokens kids)"

definition readsOnly :: "('s, 'a) Token \<Rightarrow> bool" where
  "readsOnly t = (\<forall>s. \<exists>v. resolve t s = (Inr v, s))"

text \<open>A token inside a structured value: the value is built from what the token resolves to.\<close>

definition mapToken :: "('a \<Rightarrow> 'b) \<Rightarrow> ('s, 'a) Token \<Rightarrow> ('s, 'b) Token" where
  "mapToken f t =
     (case t of
        Constant v \<Rightarrow> Constant (f v)
      | Lazy producer \<Rightarrow>
          Lazy (\<lambda>s. case producer s of
                       (Inl e, s') \<Rightarrow> (Inl e, s')
                     | (Inr v, s') \<Rightarrow> (Inr (f v), s')))"

text \<open>
  The subtree of a step scaling action: the construct itself declares no resource; its
  child \<^verbatim>\<open>Resource\<close> is the \<^verbatim>\<open>CfnScalingPolicy\<close> with the properties the constructor hands to it.
  The enumerations are written as their string values; \<open>num\<close> writes a number.
\<close>

definition AdjustmentType_value :: "AdjustmentType \<Rightarrow> string" where
  "AdjustmentType_value t =
     (case t of
        ChangeInCapacity \<Rightarrow> ''ChangeInCapacity''
      | PercentChangeInCapacity \<Rightarrow> ''PercentChangeInCapacity''
      | ExactCapacity \<Rightarrow> ''ExactCapacity'')"

definition MetricAggregationType_value :: "MetricAggregationType \<Rightarrow> string" where
  "MetricAggregationType_value t =
     (case t of Average \<Rightarrow> ''Average'' | Minimum \<Rightarrow> ''Minimum'' | Maximum \<Rightarrow> ''Maximum'')"

definition optional :: "('a \<Rightarrow> JsValue) \<Rightarrow> 'a option \<Rightarrow> JsValue" where
  "optional f x = (case x of None \<Rightarrow> JsUndefined | Some v \<Rightarrow> f v)"

text \<open>An object literal in the document: its undefined fields are omitted as well.\<close>

definition object :: "(string \<times> JsValue) list \<Rightarrow> JsValue" where
  "object kvs = JsObject (filter (\<lambda>f. snd f \<noteq> JsUndefined) kvs)"

definition stepAdjustmentValue :: "('n \<Rightarrow> JsValue) \<Rightarrow> 'n StepAdjustmentProperty \<Rightarrow> JsValue" where
  "stepAdjustmentValue num a =
     object [(''metricIntervalLowerBound'', optional num (metricIntervalLowerBound a)),
             (''metricIntervalUpperBound'', optional num (metricIntervalUpperBound a)),
             (''scalingAdjustment'', num (scalingAdjustment a))]"

definition StepScalingAction_construct ::
  "('n \<Rightarrow> JsValue) \<Rightarrow> string \<Rightarrow> 'n StepScalingAction \<Rightarrow> 'n StepScalingAction Construct" where
  "StepScalingAction_construct num ident this =
     Construct ident None []
       [Construct ''Resource'' (Some ''CfnScalingPolicy'')
          [(''policyName'', makeConstant (JsString (cfnPolicyName (resource this)))),
           (''policyType'', makeConstant (JsString (cfnPolicyType (resource this)))),
           (''scalingTargetId'', makeConstant (JsString (cfnScalingTargetId (resource this)))),
           (''stepScalingPolicyConfiguration'',
              mapToken
                (\<lambda>adj. object
                   [(''adjustmentType'',
                       optional (\<lambda>t. JsString (AdjustmentType_value t))
                         (cfnAdjustmentType (resource this))),
                    (''cooldown'', optional num (cfnCooldown (resource this))),
                    (''minAdjustmentMagnitude'',
                       optional num (cfnMinAdjustmentMagnitude (resource this))),
                    (''metricAggregationType'',
                       optional (\<lambda>t. JsString (MetricAggregationType_value t))
                         (cfnMetricAggregationType (resource this))),
                    (''stepAdjustments'', JsArray (map (stepAdjustmentValue num) adj))])
                stepAdjustments)]
          []]"

text \<open>
  The subtree of a topic: the topic of \<^verbatim>\<open>TopicBase\<close> declares no resource itself; each child is
  the resource of its class, a subscription with the properties it was constructed with,
  the policy with the topics and the document of the policy the topic holds. How a
  protocol and a policy statement are written is decided by code that is not part of the
  sources: \<open>protocolValue\<close> and \<open>statementValue\<close> are parameters.
\<close>

definition Topic_construct ::
  "(SubscriptionProtocol \<Rightarrow> JsValue) \<Rightarrow> (PolicyStatement \<Rightarrow> JsValue) \<Rightarrow> Topic \<Rightarrow>
   Topic Construct" where
  "Topic_construct protocolValue statementValue this =
     Construct (nodeId (topicNode this)) None []
       (map (\<lambda>c. case snd c of
                   SubscriptionChild props \<Rightarrow>
                     Construct (fst c) (Some ''Subscription'')
                       [(''topic'', makeConstant (JsString (topic props))),
                        (''endpoint'', makeConstant (JsString (endpoint props))),
                        (''protocol'', makeConstant (protocolValue (protocol props))),
                        (''rawMessageDelivery'',
                           makeConstant (optional JsBoolean (rawMessageDelivery props)))]
                       []
                 | PolicyChild \<Rightarrow>
                     Construct (fst c) (Some ''TopicPolicy'')
                       [(''topics'',
                           makeLazy (\<lambda>s. (Inr (optional
                              (\<lambda>p. JsArray (map JsString (policyTopics p))) (policy s)), s))),
                        (''policyDocument'',
                           makeLazy (\<lambda>s. (Inr (optional
                              (\<lambda>p. JsArray (map statementValue (document p))) (policy s)), s)))]
                       [])
          (children (topicNode this)))"

section \<open>Example inputs\<close>

text \<open>The tiers of the specification's scenario, and a tier with neither bound.\<close>

definition tierUpTo10 :: "int AdjustmentTier" where
  "tierUpTo10 = \<lparr> adjustment = -1, lowerBound = None, upperBound = Some 10 \<rparr>"

definition tierFrom10 :: "int AdjustmentTier" where
  "tierFrom10 = \<lparr> adjustment = 1, lowerBound = Some 10, upperBound = None \<rparr>"

definition tierUnbounded :: "int AdjustmentTier" where
  "tierUnbounded = \<lparr> adjustment = 3, lowerBound = None, upperBound = None \<rparr>"

definition exampleHash :: "string list \<Rightarrow> string" where
  "exampleHash path = concat path"

definition exampleArnOf :: "string list \<Rightarrow> string" where
  "exampleArnOf path = ''arn:'' @ concat path"

definition exampleScalingProps :: "int StepScalingActionProps" where
  "exampleScalingProps =
     \<lparr> scalableTargetId = ''target'', policyName = None, adjustmentType = None,
       cooldownSec = None, minAdjustmentMagnitude = None, metricAggregationType = None \<rparr>"

definition exampleScalingAction :: "int StepScalingAction" where
  "exampleScalingAction =
     StepScalingAction_new exampleHash exampleArnOf [''Stack''] ''Scaling'' exampleScalingProps"

text \<open>
  The alarm of the specification's scenario, with threshold 5, and two actions whose
  binding returns a fixed ARN.
\<close>

definition exampleAlarmProps :: "(int, string) AlarmProps" where
  "exampleAlarmProps =
     \<lparr> metric = ''Errors'', alarmNameProp = None, alarmDescription = None,
       comparisonOperator = None, threshold = 5, evaluationPeriods = 1,
       evaluateLowSampleCountPercentile = None, treatMissingData = None,
       actionsEnabled = None, datapointsToAlarm = None \<rparr>"

definition exampleAlarm :: "(int, string) Alarm" where
  "exampleAlarm = Alarm_new ''arn:alarm:A'' ''A'' exampleAlarmProps"

definition actionX :: "(int, string) IAlarmAction" where
  "actionX = IAlarmAction (\<lambda>alarm. \<lparr> alarmActionArn = ''arn:X'' \<rparr>)"

definition actionY :: "(int, string) IAlarmAction" where
  "actionY = IAlarmAction (\<lambda>alarm. \<lparr> alarmActionArn = ''arn:Y'' \<rparr>)"

definition exampleArn :: "(int, string) IAlarmAction \<Rightarrow> string" where
  "exampleArn a = alarmActionArn (bind a exampleAlarm)"

definition exampleScalingPropsEmptyName :: "int StepScalingActionProps" where
  "exampleScalingPropsEmptyName = exampleScalingProps\<lparr> policyName := Some [] \<rparr>"

text \<open>
  A live and an imported topic, a statement, and the live topic after a subscription
  named \<^verbatim>\<open>Policy\<close> was added to it.
\<close>

definition liveTopic :: Topic where
  "liveTopic = TopicBase_new ''MyTopic'' ''arn:aws:sns:topic'' ''MyTopic'' True"

definition importedTopic :: Topic where
  "importedTopic = TopicBase_new ''Imported'' ''arn:aws:sns:imported'' ''Imported'' False"

definition publishStatement :: PolicyStatement where
  "publishStatement =
     addResource ''arn:aws:sns:topic'' (addAction ''sns:Publish'' PolicyStatement_new)"

definition otherStatement :: PolicyStatement where
  "otherStatement =
     addResource ''arn:aws:sns:topic'' (addAction ''sns:Subscribe'' PolicyStatement_new)"

definition topicWithSubscriptionNamedPolicy :: Topic where
  "topicWithSubscriptionNamedPolicy =
     snd (subscribe liveTopic ''Policy'' ''https://example.com/hook'' Https None)"

definition liveTopicWithPolicy :: Topic where
  "liveTopicWithPolicy = snd (addToResourcePolicy liveTopic publishStatement)"

definition exampleQueue :: Queue where
  "exampleQueue =
     \<lparr> queueIsConstruct = True, queueNode = \<lparr> nodeId = ''MyQueue'', children = [] \<rparr>,
       queueArn = ''arn:aws:sqs:queue'', queueAutoCreatePolicy = True, queuePolicy = None \<rparr>"

definition exampleNode :: "Child ConstructNode" where
  "exampleNode = \<lparr> nodeId = ''Parent'', children = [(''First'', PolicyChild)] \<rparr>"

text \<open>
  A renderer that drops the undefined fields and keeps the others as they are, and two
  publishing tasks on the live topic, with and without a message per subscription type.
\<close>

definition exampleRenderObject :: "(string \<times> JsValue) list \<Rightarrow> (string \<rightharpoonup> JsValue)" where
  "exampleRenderObject obj = map_of (filter (\<lambda>f. snd f \<noteq> JsUndefined) obj)"

definition examplePublishPerType :: PublishToTopic where
  "examplePublishPerType =
     \<lparr> publishTopic = liveTopic,
       publishProps = \<lparr> message = \<lparr> taskInputValue = JsObject [(''default'', JsString ''hello'')] \<rparr>,
                        messagePerSubscriptionType = Some True, subject = None \<rparr> \<rparr>"

definition examplePublishPlain :: PublishToTopic where
  "examplePublishPlain =
     \<lparr> publishTopic = liveTopic,
       publishProps = \<lparr> message = \<lparr> taskInputValue = JsString ''hello'' \<rparr>,
                        messagePerSubscriptionType = None, subject = Some ''greeting'' \<rparr> \<rparr>"

text \<open>
  The statements of the pipeline test \<^verbatim>\<open>uses a single permission statement if the same
  ChangeSet name is used\<close>: each of the two actions needs \<^verbatim>\<open>iam:PassRole\<close> on its own role and
  the change-set permissions on its own stack, under the condition on the change-set name
  \<^verbatim>\<open>MyChangeSet\<close>. The deploy-time references of the test are written as strings.
\<close>

definition passRoleOn :: "string \<Rightarrow> PolicyStatement" where
  "passRoleOn role = addResource role (addAction ''iam:PassRole'' PolicyStatement_new)"

definition changeSetPermissionsOn :: "string \<Rightarrow> PolicyStatement" where
  "changeSetPermissionsOn stack =
     setCondition ''StringEqualsIfExists'' [(''cloudformation:ChangeSetName'', ''MyChangeSet'')]
       (addResource stack
         (addAction ''cloudformation:DescribeStacks''
           (addAction ''cloudformation:DescribeChangeSet''
             (addAction ''cloudformation:DeleteChangeSet''
               (addAction ''cloudformation:CreateChangeSet'' PolicyStatement_new)))))"

text \<open>
  The scaling action after the two tiers were added, the alarm after actions were added
  to each of its three sequences, and a stack holding the scaling action.
\<close>

definition exampleScalingActionWithTiers :: "int StepScalingAction" where
  "exampleScalingActionWithTiers =
     snd (addAdjustment_calls exampleScalingAction [tierFrom10, tierUpTo10])"

definition exampleAlarmWithActions :: "(int, string) Alarm" where
  "exampleAlarmWithActions =
     addOkAction (addInsufficientDataAction
       (addAlarmAction (addAlarmAction exampleAlarm [actionX]) [actionY]) [actionY]) [actionX]"

definition exampleStack :: "int StepScalingAction Construct" where
  "exampleStack =
     Construct ''Stack'' None []
       [StepScalingAction_construct JsNumber ''Scaling'' exampleScalingActionWithTiers]"

definition exampleSerialize :: "StructuredDocument \<Rightarrow> string" where
  "exampleSerialize doc = concat (map (\<lambda>r. concat (fst r) @ '':'' @ fst (snd r)) doc)"

text \<open>
  A token whose producer changes the state it reads, a counter, and a stack declaring one
  resource with it.
\<close>

definition countingToken :: "(nat, JsValue) Token" where
  "countingToken = makeLazy (\<lambda>n. (Inr (JsNumber (int n)), Suc n))"

definition countingStack :: "nat Construct" where
  "countingStack = Construct ''Stack'' (Some ''Counter'') [(''count'', countingToken)] []"

text \<open>How the examples write a protocol and a policy statement.\<close>

definition exampleProtocolValue :: "SubscriptionProtocol \<Rightarrow> JsValue" where
  "exampleProtocolValue p =
     JsString (case p of Http \<Rightarrow> ''http'' | Https \<Rightarrow> ''https'' | Email \<Rightarrow> ''email''
               | EmailJson \<Rightarrow> ''email-json'' | Sqs \<Rightarrow> ''sqs'' | Lambda \<Rightarrow> ''lambda'')"

definition exampleStatementValue :: "PolicyStatement \<Rightarrow> JsValue" where
  "exampleStatementValue s =
     JsObject [(''Action'', JsArray (map JsString (stmtActions s))),
               (''Resource'', JsArray (map JsString (stmtResources s)))]"

text \<open>
  Two statements with the same effect, actions and condition, the condition written in a
  different order of its operators.
\<close>

definition conditionedOn :: "(string \<times> (string \<times> string) list) list \<Rightarrow> string \<Rightarrow> PolicyStatement" where
  "conditionedOn cs r =
     (addResource r (addAction ''sqs:SendMessage'' PolicyStatement_new))\<lparr> stmtConditions := cs \<rparr>"

section \<open>Properties of the step scaling action\<close>

lemma addAdjustment_calls_append:
  "(\<forall>t \<in> set ts. lowerBound t \<noteq> None \<or> upperBound t \<noteq> None) \<Longrightarrow>
   addAdjustment_calls this ts =
     (Inr (), this\<lparr> adjustments := adjustments this @
        map (\<lambda>t. \<lparr> metricIntervalLowerBound = lowerBound t,
                    metricIntervalUpperBound = upperBound t,
                    scalingAdjustment = adjustment t \<rparr>) ts \<rparr>)"
proof (induction ts arbitrary: this)
  case Nil
  then show ?case by simp
next
  case (Cons t ts)
  then show ?case by (auto simp: addAdjustment_def)
qed

lemma resolve_stepAdjustments:
  "resolve stepAdjustments this = (Inr (adjustments this), this)"
  by (simp add: resolve_def stepAdjustments_def makeLazy_def)

text \<open>
  C1. \<^verbatim>\<open>addAdjustment\<close> fails with \<open>InvalidTierError\<close>, leaving the action as it was, when the
  tier has neither a lower nor an upper bound. When one of them is set the call succeeds
  and appends the entry. Whatever the bounds of the tiers are, in whatever order they
  come, a sequence of calls in which every tier has a bound succeeds on a new action, and
  the token \<open>stepAdjustments\<close> resolves to the entries in call order.
\<close>

theorem addAdjustment_requires_bound_and_keeps_call_order:
  "(lowerBound t = None \<and> upperBound t = None \<longrightarrow>
      addAdjustment this t = (Inl InvalidTierError, this)) \<and>
   (lowerBound t \<noteq> None \<or> upperBound t \<noteq> None \<longrightarrow>
      addAdjustment this t =
        (Inr (), this\<lparr> adjustments := adjustments this @
           [\<lparr> metricIntervalLowerBound = lowerBound t,
              metricIntervalUpperBound = upperBound t,
              scalingAdjustment = adjustment t \<rparr>] \<rparr>)) \<and>
   ((\<forall>t \<in> set ts. lowerBound t \<noteq> None \<or> upperBound t \<noteq> None) \<longrightarrow>
      (\<exists>this'. addAdjustment_calls (StepScalingAction_new hash arnOf scope ident props) ts = (Inr (), this') \<and>
         resolve stepAdjustments this' =
           (Inr (map (\<lambda>t. \<lparr> metricIntervalLowerBound = lowerBound t,
                              metricIntervalUpperBound = upperBound t,
                              scalingAdjustment = adjustment t \<rparr>) ts), this')))"
proof (intro conjI impI)
  assume "lowerBound t = None \<and> upperBound t = None"
  then show "addAdjustment this t = (Inl InvalidTierError, this)"
    by (simp add: addAdjustment_def InvalidTierError_def)
next
  assume "lowerBound t \<noteq> None \<or> upperBound t \<noteq> None"
  then show "addAdjustment this t =
        (Inr (), this\<lparr> adjustments := adjustments this @
           [\<lparr> metricIntervalLowerBound = lowerBound t,
              metricIntervalUpperBound = upperBound t,
              scalingAdjustment = adjustment t \<rparr>] \<rparr>)"
    by (auto simp: addAdjustment_def)
next
  assume ok: "\<forall>t \<in> set ts. lowerBound t \<noteq> None \<or> upperBound t \<noteq> None"
  let ?a = "StepScalingAction_new hash arnOf scope ident props"
  have "adjustments ?a = []" by (simp add: StepScalingAction_new_def)
  with addAdjustment_calls_append [OF ok, of ?a]
  show "\<exists>this'. addAdjustment_calls ?a ts = (Inr (), this') \<and>
         resolve stepAdjustments this' =
           (Inr (map (\<lambda>t. \<lparr> metricIntervalLowerBound = lowerBound t,
                              metricIntervalUpperBound = upperBound t,
                              scalingAdjustment = adjustment t \<rparr>) ts), this')"
    by (simp add: resolve_stepAdjustments)
qed

theorem addAdjustment_requires_bound_and_keeps_call_order_witness:
  "addAdjustment exampleScalingAction tierUnbounded = (Inl InvalidTierError, exampleScalingAction) \<and>
   addAdjustment exampleScalingAction tierFrom10 =
     (Inr (), exampleScalingAction\<lparr> adjustments :=
        [\<lparr> metricIntervalLowerBound = Some 10, metricIntervalUpperBound = None,
           scalingAdjustment = 1 \<rparr>] \<rparr>) \<and>
   (\<exists>this'. addAdjustment_calls exampleScalingAction [tierFrom10, tierUpTo10] = (Inr (), this') \<and>
      resolve stepAdjustments this' =
        (Inr [\<lparr> metricIntervalLowerBound = Some 10, metricIntervalUpperBound = None,
                scalingAdjustment = 1 \<rparr>,
              \<lparr> metricIntervalLowerBound = None, metricIntervalUpperBound = Some 10,
                scalingAdjustment = -1 \<rparr>], this'))"
proof -
  have empty: "adjustments exampleScalingAction = []"
    by (simp add: exampleScalingAction_def StepScalingAction_new_def)
  have one: "addAdjustment exampleScalingAction tierUnbounded =
      (Inl InvalidTierError, exampleScalingAction)"
    using addAdjustment_requires_bound_and_keeps_call_order
      [of tierUnbounded exampleScalingAction "[]"
          exampleHash exampleArnOf "[''Stack'']" "''Scaling''" exampleScalingProps]
    by (simp add: tierUnbounded_def)
  have two: "addAdjustment exampleScalingAction tierFrom10 =
     (Inr (), exampleScalingAction\<lparr> adjustments :=
        [\<lparr> metricIntervalLowerBound = Some 10, metricIntervalUpperBound = None,
           scalingAdjustment = 1 \<rparr>] \<rparr>)"
    using addAdjustment_requires_bound_and_keeps_call_order
      [of tierFrom10 exampleScalingAction "[]"
          exampleHash exampleArnOf "[''Stack'']" "''Scaling''" exampleScalingProps] empty
    by (simp add: tierFrom10_def)
  have three: "\<exists>this'. addAdjustment_calls exampleScalingAction [tierFrom10, tierUpTo10] = (Inr (), this') \<and>
      resolve stepAdjustments this' =
        (Inr [\<lparr> metricIntervalLowerBound = Some 10, metricIntervalUpperBound = None,
                scalingAdjustment = 1 \<rparr>,
              \<lparr> metricIntervalLowerBound = None, metricIntervalUpperBound = Some 10,
                scalingAdjustment = -1 \<rparr>], this')"
    using addAdjustment_requires_bound_and_keeps_call_order
      [of tierFrom10 exampleScalingAction "[tierFrom10, tierUpTo10]"
          exampleHash exampleArnOf "[''Stack'']" "''Scaling''" exampleScalingProps]
    by (simp add: tierFrom10_def tierUpTo10_def exampleScalingAction_def
          del: addAdjustment_calls.simps)
  from one two three show ?thesis by blast
qed

section \<open>Properties of the alarm\<close>

lemma resolve_alarmActions:
  "resolve alarmActions this = (Inr (alarmActionArns this), this)"
  by (simp add: resolve_def alarmActions_def makeLazy_def)

lemma resolve_insufficientDataActions:
  "resolve insufficientDataActions this = (Inr (insufficientDataActionArns this), this)"
  by (simp add: resolve_def insufficientDataActions_def makeLazy_def)

lemma resolve_okActions:
  "resolve okActions this = (Inr (okActionArns this), this)"
  by (simp add: resolve_def okActions_def makeLazy_def)

lemma alarmActionArns_update_same:
  "alarmActionArns this = v \<Longrightarrow> this\<lparr> alarmActionArns := v \<rparr> = this"
  by (cases this) simp

lemma addAlarmAction_arns:
  "alarmActionArns (addAlarmAction this actions) =
     Some ((case alarmActionArns this of None \<Rightarrow> [] | Some xs \<Rightarrow> xs) @
           map (\<lambda>a. alarmActionArn (bind a
                  (this\<lparr> alarmActionArns :=
                     Some (case alarmActionArns this of None \<Rightarrow> [] | Some xs \<Rightarrow> xs) \<rparr>))) actions)"
  by (cases "alarmActionArns this")
     (auto simp: addAlarmAction_def Let_def alarmActionArns_update_same)

lemma foldl_addAlarmAction_arns:
  assumes "\<forall>a \<in> set (concat calls). \<forall>alarm. alarmActionArn (bind a alarm) = arn a"
  shows "alarmActionArns (foldl addAlarmAction this calls) =
     (if calls = [] then alarmActionArns this
      else Some ((case alarmActionArns this of None \<Rightarrow> [] | Some xs \<Rightarrow> xs) @
                 concat (map (map arn) calls)))"
  using assms
proof (induction calls arbitrary: this)
  case Nil
  then show ?case by simp
next
  case (Cons c calls)
  have c: "alarmActionArns (addAlarmAction this c) =
      Some ((case alarmActionArns this of None \<Rightarrow> [] | Some xs \<Rightarrow> xs) @ map arn c)"
    using Cons.prems by (simp add: addAlarmAction_arns)
  have "\<forall>a \<in> set (concat calls). \<forall>alarm. alarmActionArn (bind a alarm) = arn a"
    using Cons.prems by simp
  from Cons.IH [OF this, of "addAlarmAction this c"] c
  show ?case by simp
qed

lemma insufficientDataActionArns_update_same:
  "insufficientDataActionArns this = v \<Longrightarrow> this\<lparr> insufficientDataActionArns := v \<rparr> = this"
  by (cases this) simp

lemma okActionArns_update_same:
  "okActionArns this = v \<Longrightarrow> this\<lparr> okActionArns := v \<rparr> = this"
  by (cases this) simp

lemma addAlarmAction_eq:
  "addAlarmAction this actions =
     this\<lparr> alarmActionArns :=
       Some ((case alarmActionArns this of None \<Rightarrow> [] | Some xs \<Rightarrow> xs) @
             map (\<lambda>a. alarmActionArn (bind a
                    (this\<lparr> alarmActionArns :=
                       Some (case alarmActionArns this of None \<Rightarrow> [] | Some xs \<Rightarrow> xs) \<rparr>)))
               actions) \<rparr>"
  by (cases "alarmActionArns this")
     (auto simp: addAlarmAction_def Let_def alarmActionArns_update_same)

lemma addInsufficientDataAction_eq:
  "addInsufficientDataAction this actions =
     this\<lparr> insufficientDataActionArns :=
       Some ((case insufficientDataActionArns this of None \<Rightarrow> [] | Some xs \<Rightarrow> xs) @
             map (\<lambda>a. alarmActionArn (bind a
                    (this\<lparr> insufficientDataActionArns :=
                       Some (case insufficientDataActionArns this of
                               None \<Rightarrow> [] | Some xs \<Rightarrow> xs) \<rparr>)))
               actions) \<rparr>"
  by (cases "insufficientDataActionArns this")
     (auto simp: addInsufficientDataAction_def Let_def insufficientDataActionArns_update_same)

lemma addOkAction_eq:
  "addOkAction this actions =
     this\<lparr> okActionArns :=
       Some ((case okActionArns this of None \<Rightarrow> [] | Some xs \<Rightarrow> xs) @
             map (\<lambda>a. alarmActionArn (bind a
                    (this\<lparr> okActionArns :=
                       Some (case okActionArns this of None \<Rightarrow> [] | Some xs \<Rightarrow> xs) \<rparr>)))
               actions) \<rparr>"
  by (cases "okActionArns this")
     (auto simp: addOkAction_def Let_def okActionArns_update_same)

text \<open>
  C2. The three backing sequences of a new alarm are undefined, not empty, and each of
  the three tokens of a new alarm resolves to the undefined value, which leaves the field
  out. An add call initialises its sequence only when it is undefined: it keeps the
  entries already there and appends the ARNs of its actions, and changes nothing else of
  the alarm. An add call with no action at all on a new alarm makes the token resolve to
  the empty list, which differs from the omitted field.
\<close>

theorem alarm_action_sequences_start_absent:
  "alarmActionArns (Alarm_new arn name props) = None \<and>
   insufficientDataActionArns (Alarm_new arn name props) = None \<and>
   okActionArns (Alarm_new arn name props) = None \<and>
   fst (resolve alarmActions (Alarm_new arn name props)) = Inr None \<and>
   fst (resolve insufficientDataActions (Alarm_new arn name props)) = Inr None \<and>
   fst (resolve okActions (Alarm_new arn name props)) = Inr None \<and>
   fst (resolve alarmActions (addAlarmAction (Alarm_new arn name props) [])) = Inr (Some []) \<and>
   fst (resolve insufficientDataActions
          (addInsufficientDataAction (Alarm_new arn name props) [])) = Inr (Some []) \<and>
   fst (resolve okActions (addOkAction (Alarm_new arn name props) [])) = Inr (Some []) \<and>
   addAlarmAction this actions =
     this\<lparr> alarmActionArns :=
       Some ((case alarmActionArns this of None \<Rightarrow> [] | Some xs \<Rightarrow> xs) @
             map (\<lambda>a. alarmActionArn (bind a
                    (this\<lparr> alarmActionArns :=
                       Some (case alarmActionArns this of None \<Rightarrow> [] | Some xs \<Rightarrow> xs) \<rparr>)))
               actions) \<rparr> \<and>
   addInsufficientDataAction this actions =
     this\<lparr> insufficientDataActionArns :=
       Some ((case insufficientDataActionArns this of None \<Rightarrow> [] | Some xs \<Rightarrow> xs) @
             map (\<lambda>a. alarmActionArn (bind a
                    (this\<lparr> insufficientDataActionArns :=
                       Some (case insufficientDataActionArns this of
                               None \<Rightarrow> [] | Some xs \<Rightarrow> xs) \<rparr>)))
               actions) \<rparr> \<and>
   addOkAction this actions =
     this\<lparr> okActionArns :=
       Some ((case okActionArns this of None \<Rightarrow> [] | Some xs \<Rightarrow> xs) @
             map (\<lambda>a. alarmActionArn (bind a
                    (this\<lparr> okActionArns :=
                       Some (case okActionArns this of None \<Rightarrow> [] | Some xs \<Rightarrow> xs) \<rparr>)))
               actions) \<rparr> \<and>
   alarmActionArns (addAlarmAction this actions) \<noteq> None \<and>
   insufficientDataActionArns (addInsufficientDataAction this actions) \<noteq> None \<and>
   okActionArns (addOkAction this actions) \<noteq> None \<and>
   insufficientDataActionArns (addAlarmAction this actions) = insufficientDataActionArns this \<and>
   okActionArns (addAlarmAction this actions) = okActionArns this \<and>
   alarmActionArns (addInsufficientDataAction this actions) = alarmActionArns this \<and>
   okActionArns (addInsufficientDataAction this actions) = okActionArns this \<and>
   alarmActionArns (addOkAction this actions) = alarmActionArns this \<and>
   insufficientDataActionArns (addOkAction this actions) = insufficientDataActionArns this"
proof -
  have new: "alarmActionArns (Alarm_new arn name props) = None"
    "insufficientDataActionArns (Alarm_new arn name props) = None"
    "okActionArns (Alarm_new arn name props) = None"
    by (simp_all add: Alarm_new_def)
  have others: "alarmActionArns (addAlarmAction this actions) \<noteq> None"
    "insufficientDataActionArns (addInsufficientDataAction this actions) \<noteq> None"
    "okActionArns (addOkAction this actions) \<noteq> None"
    "insufficientDataActionArns (addAlarmAction this actions) = insufficientDataActionArns this"
    "okActionArns (addAlarmAction this actions) = okActionArns this"
    "alarmActionArns (addInsufficientDataAction this actions) = alarmActionArns this"
    "okActionArns (addInsufficientDataAction this actions) = okActionArns this"
    "alarmActionArns (addOkAction this actions) = alarmActionArns this"
    "insufficientDataActionArns (addOkAction this actions) = insufficientDataActionArns this"
    by (simp_all add: addAlarmAction_def addInsufficientDataAction_def addOkAction_def Let_def)
  have empty: "fst (resolve alarmActions (addAlarmAction (Alarm_new arn name props) [])) = Inr (Some [])"
    "fst (resolve insufficientDataActions
          (addInsufficientDataAction (Alarm_new arn name props) [])) = Inr (Some [])"
    "fst (resolve okActions (addOkAction (Alarm_new arn name props) [])) = Inr (Some [])"
    by (simp_all add: new resolve_alarmActions resolve_insufficientDataActions resolve_okActions
        addAlarmAction_def addInsufficientDataAction_def addOkAction_def Let_def)
  have absent: "fst (resolve alarmActions (Alarm_new arn name props)) = Inr None"
    "fst (resolve insufficientDataActions (Alarm_new arn name props)) = Inr None"
    "fst (resolve okActions (Alarm_new arn name props)) = Inr None"
    by (simp_all add: new resolve_alarmActions resolve_insufficientDataActions resolve_okActions)
  from new absent empty others
    addAlarmAction_eq [of this actions] addInsufficientDataAction_eq [of this actions]
    addOkAction_eq [of this actions]
  show ?thesis by blast
qed

theorem alarm_action_sequences_start_absent_witness:
  "fst (resolve okActions (addOkAction (addOkAction exampleAlarm [actionX]) [actionY])) =
     Inr (Some [''arn:X'', ''arn:Y'']) \<and>
   fst (resolve insufficientDataActions
          (addInsufficientDataAction (addInsufficientDataAction exampleAlarm [actionX]) [actionY])) =
     Inr (Some [''arn:X'', ''arn:Y'']) \<and>
   fst (resolve alarmActions (addAlarmAction (addAlarmAction exampleAlarm []) [actionY])) =
     Inr (Some [''arn:Y'']) \<and>
   fst (resolve okActions (addAlarmAction (addAlarmAction exampleAlarm [actionX]) [actionY])) =
     Inr None"
proof -
  note first = alarm_action_sequences_start_absent
      [of "''arn:alarm:A''" "''A''" exampleAlarmProps exampleAlarm "[actionX]"]
  note none = alarm_action_sequences_start_absent
      [of "''arn:alarm:A''" "''A''" exampleAlarmProps exampleAlarm "[]"]
  note ok2 = alarm_action_sequences_start_absent
      [of "''arn:alarm:A''" "''A''" exampleAlarmProps "addOkAction exampleAlarm [actionX]" "[actionY]"]
  note ins2 = alarm_action_sequences_start_absent
      [of "''arn:alarm:A''" "''A''" exampleAlarmProps
          "addInsufficientDataAction exampleAlarm [actionX]" "[actionY]"]
  note al2 = alarm_action_sequences_start_absent
      [of "''arn:alarm:A''" "''A''" exampleAlarmProps "addAlarmAction exampleAlarm []" "[actionY]"]
  note al3 = alarm_action_sequences_start_absent
      [of "''arn:alarm:A''" "''A''" exampleAlarmProps "addAlarmAction exampleAlarm [actionX]" "[actionY]"]
  have start: "alarmActionArns exampleAlarm = None" "insufficientDataActionArns exampleAlarm = None"
    "okActionArns exampleAlarm = None"
    using first by (simp_all add: exampleAlarm_def)
  have ok: "okActionArns (addOkAction (addOkAction exampleAlarm [actionX]) [actionY]) =
      Some [''arn:X'', ''arn:Y'']"
    using ok2 first start by (simp add: actionX_def actionY_def)
  have ins: "insufficientDataActionArns
      (addInsufficientDataAction (addInsufficientDataAction exampleAlarm [actionX]) [actionY]) =
      Some [''arn:X'', ''arn:Y'']"
    using ins2 first start by (simp add: actionX_def actionY_def)
  have al: "alarmActionArns (addAlarmAction (addAlarmAction exampleAlarm []) [actionY]) =
      Some [''arn:Y'']"
    using al2 none start by (simp add: actionX_def actionY_def)
  have untouched: "okActionArns (addAlarmAction (addAlarmAction exampleAlarm [actionX]) [actionY]) =
      None"
    using al3 first start by (simp add: actionX_def actionY_def)
  from ok ins al untouched show ?thesis
    by (simp add: resolve_okActions resolve_insufficientDataActions resolve_alarmActions)
qed

text \<open>
  C3. A call of \<^verbatim>\<open>addAlarmAction\<close> appends one entry per supplied action, the ARN returned by
  binding that action to the alarm, after the entries already there. When the ARN an
  action binds to does not depend on the alarm (the action \<open>a\<close> has the ARN \<open>arn a\<close>), the
  token of a new alarm resolves, after any sequence of calls, to the ARNs of all the
  supplied actions in call order; with no call at all the field is omitted.
\<close>

theorem addAlarmAction_binds_in_call_order:
  "alarmActionArns (addAlarmAction this actions) =
     Some ((case alarmActionArns this of None \<Rightarrow> [] | Some xs \<Rightarrow> xs) @
           map (\<lambda>a. alarmActionArn (bind a
                  (this\<lparr> alarmActionArns :=
                     Some (case alarmActionArns this of None \<Rightarrow> [] | Some xs \<Rightarrow> xs) \<rparr>))) actions) \<and>
   ((\<forall>a \<in> set (concat calls). \<forall>alarm. alarmActionArn (bind a alarm) = arn a) \<longrightarrow>
      fst (resolve alarmActions (foldl addAlarmAction (Alarm_new arn0 name props) calls)) =
        Inr (if calls = [] then None else Some (concat (map (map arn) calls))))"
proof (intro conjI impI)
  show "alarmActionArns (addAlarmAction this actions) =
     Some ((case alarmActionArns this of None \<Rightarrow> [] | Some xs \<Rightarrow> xs) @
           map (\<lambda>a. alarmActionArn (bind a
                  (this\<lparr> alarmActionArns :=
                     Some (case alarmActionArns this of None \<Rightarrow> [] | Some xs \<Rightarrow> xs) \<rparr>))) actions)"
    by (rule addAlarmAction_arns)
next
  assume a: "\<forall>a \<in> set (concat calls). \<forall>alarm. alarmActionArn (bind a alarm) = arn a"
  have "alarmActionArns (Alarm_new arn0 name props) = None" by (simp add: Alarm_new_def)
  with foldl_addAlarmAction_arns [OF a, of "Alarm_new arn0 name props"]
  show "fst (resolve alarmActions (foldl addAlarmAction (Alarm_new arn0 name props) calls)) =
        Inr (if calls = [] then None else Some (concat (map (map arn) calls)))"
    by (simp add: resolve_alarmActions)
qed

theorem addAlarmAction_binds_in_call_order_witness:
  "fst (resolve alarmActions (addAlarmAction (addAlarmAction exampleAlarm [actionX]) [actionY])) =
     Inr (Some [''arn:X'', ''arn:Y''])"
proof -
  have fixed: "\<forall>a \<in> set (concat [[actionX], [actionY]]). \<forall>alarm.
      alarmActionArn (bind a alarm) = exampleArn a"
    by (simp add: actionX_def actionY_def exampleArn_def)
  have "fst (resolve alarmActions
          (foldl addAlarmAction (Alarm_new ''arn:alarm:A'' ''A'' exampleAlarmProps)
             [[actionX], [actionY]])) =
        Inr (Some (concat (map (map exampleArn) [[actionX], [actionY]])))"
    using addAlarmAction_binds_in_call_order
      [of exampleAlarm "[]" "[[actionX], [actionY]]" exampleArn
          "''arn:alarm:A''" "''A''" exampleAlarmProps] fixed
    by simp
  then show ?thesis
    by (simp add: exampleAlarm_def exampleArn_def actionX_def actionY_def)
qed

section \<open>Properties of token resolution and synthesis\<close>

text \<open>
  C7. A lazy token whose producer reads a captured collection of the state, and does
  nothing else, resolves to that collection and leaves the state as it is: resolving it
  again right after gives the same result, and so does resolving it in any other state
  in which the collection is the same. This holds of the token of the step adjustments
  and of the three action tokens of the alarm, each of which resolves to its captured
  collection. A constant token resolves to its value in every state.
\<close>

theorem lazy_token_resolution_idempotent:
  "((\<forall>s. producer s = (Inr (collection s), s)) \<longrightarrow>
      resolve (makeLazy producer) s1 = (Inr (collection s1), s1) \<and>
      resolve (makeLazy producer) (snd (resolve (makeLazy producer) s1)) =
        resolve (makeLazy producer) s1 \<and>
      (collection s1 = collection s2 \<longrightarrow>
         fst (resolve (makeLazy producer) s1) = fst (resolve (makeLazy producer) s2))) \<and>
   resolve stepAdjustments a1 = (Inr (adjustments a1), a1) \<and>
   resolve stepAdjustments (snd (resolve stepAdjustments a1)) = resolve stepAdjustments a1 \<and>
   (adjustments a1 = adjustments a2 \<longrightarrow>
      fst (resolve stepAdjustments a1) = fst (resolve stepAdjustments a2)) \<and>
   resolve alarmActions b1 = (Inr (alarmActionArns b1), b1) \<and>
   resolve alarmActions (snd (resolve alarmActions b1)) = resolve alarmActions b1 \<and>
   (alarmActionArns b1 = alarmActionArns b2 \<longrightarrow>
      fst (resolve alarmActions b1) = fst (resolve alarmActions b2)) \<and>
   resolve insufficientDataActions b1 = (Inr (insufficientDataActionArns b1), b1) \<and>
   resolve insufficientDataActions (snd (resolve insufficientDataActions b1)) =
     resolve insufficientDataActions b1 \<and>
   (insufficientDataActionArns b1 = insufficientDataActionArns b2 \<longrightarrow>
      fst (resolve insufficientDataActions b1) = fst (resolve insufficientDataActions b2)) \<and>
   resolve okActions b1 = (Inr (okActionArns b1), b1) \<and>
   resolve okActions (snd (resolve okActions b1)) = resolve okActions b1 \<and>
   (okActionArns b1 = okActionArns b2 \<longrightarrow>
      fst (resolve okActions b1) = fst (resolve okActions b2)) \<and>
   resolve (makeConstant v) s = (Inr v, s)"
proof -
  have general: "(\<forall>s. producer s = (Inr (collection s), s)) \<longrightarrow>
      resolve (makeLazy producer) s1 = (Inr (collection s1), s1) \<and>
      resolve (makeLazy producer) (snd (resolve (makeLazy producer) s1)) =
        resolve (makeLazy producer) s1 \<and>
      (collection s1 = collection s2 \<longrightarrow>
         fst (resolve (makeLazy producer) s1) = fst (resolve (makeLazy producer) s2))"
    by (simp add: resolve_def makeLazy_def)
  have const: "resolve (makeConstant v) s = (Inr v, s)"
    by (simp add: resolve_def makeConstant_def)
  have step: "resolve stepAdjustments a1 = (Inr (adjustments a1), a1)"
    "resolve stepAdjustments (snd (resolve stepAdjustments a1)) = resolve stepAdjustments a1"
    "adjustments a1 = adjustments a2 \<longrightarrow>
       fst (resolve stepAdjustments a1) = fst (resolve stepAdjustments a2)"
    by (simp_all add: resolve_stepAdjustments)
  have alarm: "resolve alarmActions b1 = (Inr (alarmActionArns b1), b1)"
    "resolve alarmActions (snd (resolve alarmActions b1)) = resolve alarmActions b1"
    "alarmActionArns b1 = alarmActionArns b2 \<longrightarrow>
       fst (resolve alarmActions b1) = fst (resolve alarmActions b2)"
    by (simp_all add: resolve_alarmActions)
  have insufficient: "resolve insufficientDataActions b1 = (Inr (insufficientDataActionArns b1), b1)"
    "resolve insufficientDataActions (snd (resolve insufficientDataActions b1)) =
       resolve insufficientDataActions b1"
    "insufficientDataActionArns b1 = insufficientDataActionArns b2 \<longrightarrow>
       fst (resolve insufficientDataActions b1) = fst (resolve insufficientDataActions b2)"
    by (simp_all add: resolve_insufficientDataActions)
  have ok: "resolve okActions b1 = (Inr (okActionArns b1), b1)"
    "resolve okActions (snd (resolve okActions b1)) = resolve okActions b1"
    "okActionArns b1 = okActionArns b2 \<longrightarrow>
       fst (resolve okActions b1) = fst (resolve okActions b2)"
    by (simp_all add: resolve_okActions)
  from general step alarm insufficient ok const show ?thesis
    by blast
qed

theorem lazy_token_resolution_idempotent_witness:
  "resolve (makeLazy (\<lambda>this. (Inr (adjustments this), this))) exampleScalingActionWithTiers =
     (Inr [\<lparr> metricIntervalLowerBound = Some 10, metricIntervalUpperBound = None,
              scalingAdjustment = 1 \<rparr>,
            \<lparr> metricIntervalLowerBound = None, metricIntervalUpperBound = Some 10,
              scalingAdjustment = -1 \<rparr>], exampleScalingActionWithTiers) \<and>
   fst (resolve (makeLazy (\<lambda>this. (Inr (adjustments this), this)))
          (exampleScalingActionWithTiers\<lparr> scalingPolicyArn := ''arn:other'' \<rparr>)) =
     fst (resolve (makeLazy (\<lambda>this. (Inr (adjustments this), this)))
          exampleScalingActionWithTiers) \<and>
   fst (resolve stepAdjustments (exampleScalingActionWithTiers\<lparr> scalingPolicyArn := ''arn:other'' \<rparr>)) =
     Inr [\<lparr> metricIntervalLowerBound = Some 10, metricIntervalUpperBound = None,
             scalingAdjustment = 1 \<rparr>,
           \<lparr> metricIntervalLowerBound = None, metricIntervalUpperBound = Some 10,
             scalingAdjustment = -1 \<rparr>] \<and>
   resolve alarmActions exampleAlarmWithActions =
     (Inr (Some [''arn:X'', ''arn:Y'']), exampleAlarmWithActions) \<and>
   resolve insufficientDataActions exampleAlarmWithActions =
     (Inr (Some [''arn:Y'']), exampleAlarmWithActions) \<and>
   resolve okActions exampleAlarmWithActions =
     (Inr (Some [''arn:X'']), exampleAlarmWithActions) \<and>
   fst (resolve alarmActions (addOkAction exampleAlarmWithActions [actionY])) =
     fst (resolve alarmActions exampleAlarmWithActions)"
proof -
  let ?moved = "exampleScalingActionWithTiers\<lparr> scalingPolicyArn := ''arn:other'' \<rparr>"
  have reader: "\<forall>s :: int StepScalingAction.
      (\<lambda>this. (Inr (adjustments this), this)) s = (Inr (adjustments s), s)"
    by simp
  have tiers: "adjustments exampleScalingActionWithTiers =
      [\<lparr> metricIntervalLowerBound = Some 10, metricIntervalUpperBound = None,
         scalingAdjustment = 1 \<rparr>,
       \<lparr> metricIntervalLowerBound = None, metricIntervalUpperBound = Some 10,
         scalingAdjustment = -1 \<rparr>]"
    by (simp add: exampleScalingActionWithTiers_def exampleScalingAction_def
        StepScalingAction_new_def addAdjustment_def tierFrom10_def tierUpTo10_def)
  have same: "adjustments ?moved = adjustments exampleScalingActionWithTiers"
    by simp
  have arns: "alarmActionArns exampleAlarmWithActions = Some [''arn:X'', ''arn:Y'']"
    "insufficientDataActionArns exampleAlarmWithActions = Some [''arn:Y'']"
    "okActionArns exampleAlarmWithActions = Some [''arn:X'']"
    "alarmActionArns (addOkAction exampleAlarmWithActions [actionY]) =
       alarmActionArns exampleAlarmWithActions"
    by (simp_all add: exampleAlarmWithActions_def exampleAlarm_def Alarm_new_def
        addAlarmAction_def addInsufficientDataAction_def addOkAction_def Let_def
        actionX_def actionY_def)
  show ?thesis
    using lazy_token_resolution_idempotent
      [of "\<lambda>this. (Inr (adjustments this), this)" adjustments
          exampleScalingActionWithTiers ?moved
          ?moved exampleScalingActionWithTiers
          exampleAlarmWithActions "addOkAction exampleAlarmWithActions [actionY]" "()" "()"]
      lazy_token_resolution_idempotent
      [of "\<lambda>this. (Inr (adjustments this), this)" adjustments
          ?moved exampleScalingActionWithTiers
          ?moved exampleScalingActionWithTiers
          "addOkAction exampleAlarmWithActions [actionY]" exampleAlarmWithActions "()" "()"]
      reader tiers same arns
    by simp
qed

lemma resolveProps_readers:
  "\<forall>p \<in> set props. readsOnly (snd p) \<Longrightarrow>
   resolveProps props s =
     (Inr (filter (\<lambda>kv. snd kv \<noteq> JsUndefined) (map (\<lambda>p. (fst p, valueOf (snd p) s)) props)), s)"
proof (induction props)
  case Nil
  then show ?case by simp
next
  case (Cons p ps)
  from Cons.prems have "readsOnly (snd p)" by simp
  then obtain v where v: "resolve (snd p) s = (Inr v, s)"
    unfolding readsOnly_def by blast
  then have "valueOf (snd p) s = v" by (simp add: valueOf_def)
  with Cons v show ?case by simp
qed

lemma synthesize_readers:
  "(\<forall>t \<in> set (constructTokens c). readsOnly t) \<longrightarrow>
     synthesizeNode scope c s = (Inr (describeNode scope c s), s)"
  "(\<forall>t \<in> set (concat (map constructTokens cs)). readsOnly t) \<longrightarrow>
     synthesizeNodes scope cs s = (Inr (concat (map (\<lambda>c. describeNode scope c s) cs)), s)"
proof (induction scope c s and scope cs s rule: synthesizeNode_synthesizeNodes.induct)
  case (1 scope ident ty props kids s)
  show ?case
  proof
    assume r: "\<forall>t \<in> set (constructTokens (Construct ident ty props kids)). readsOnly t"
    then have p: "\<forall>p \<in> set props. readsOnly (snd p)" by auto
    from r have k: "\<forall>t \<in> set (concat (map constructTokens kids)). readsOnly t" by auto
    note rp = resolveProps_readers [OF p, of s]
    from "1.IH" [OF rp [symmetric] refl] k
    have "synthesizeNodes (scope @ [ident]) kids s =
        (Inr (concat (map (\<lambda>c. describeNode (scope @ [ident]) c s) kids)), s)"
      by simp
    with rp show "synthesizeNode scope (Construct ident ty props kids) s =
        (Inr (describeNode scope (Construct ident ty props kids) s), s)"
      by simp
  qed
next
  case (2 scope s)
  then show ?case by simp
next
  case (3 scope c cs s)
  show ?case
  proof
    assume r: "\<forall>t \<in> set (concat (map constructTokens (c # cs))). readsOnly t"
    then have c: "\<forall>t \<in> set (constructTokens c). readsOnly t"
      and cs: "\<forall>t \<in> set (concat (map constructTokens cs)). readsOnly t" by auto
    from "3.IH"(1) c have one: "synthesizeNode scope c s = (Inr (describeNode scope c s), s)"
      by simp
    from "3.IH"(2) [OF one [symmetric] refl] cs
    have "synthesizeNodes scope cs s =
        (Inr (concat (map (\<lambda>c. describeNode scope c s) cs)), s)"
      by simp
    with one show "synthesizeNodes scope (c # cs) s =
        (Inr (concat (map (\<lambda>c. describeNode scope c s) (c # cs))), s)"
      by simp
  qed
qed

lemma readsOnly_makeConstant: "readsOnly (makeConstant v)"
  by (simp add: readsOnly_def makeConstant_def resolve_def)

lemma readsOnly_reader: "readsOnly (makeLazy (\<lambda>s. (Inr (f s), s)))"
  by (simp add: readsOnly_def makeLazy_def resolve_def)

lemma readsOnly_mapToken: "readsOnly t \<Longrightarrow> readsOnly (mapToken f t)"
proof (cases t)
  case (Constant v)
  then show ?thesis by (simp add: readsOnly_def mapToken_def resolve_def)
next
  case (Lazy producer)
  assume r: "readsOnly t"
  show ?thesis
    unfolding readsOnly_def
  proof
    fix s
    from r Lazy obtain v where "resolve (Lazy producer) s = (Inr v, s)"
      unfolding readsOnly_def by blast
    then have "producer s = (Inr v, s)"
      by (auto simp: resolve_def split: prod.splits sum.splits)
    then show "\<exists>v. resolve (mapToken f t) s = (Inr v, s)"
      by (simp add: Lazy mapToken_def resolve_def)
  qed
qed

lemma valueOf_mapToken_stepAdjustments:
  "valueOf (mapToken f stepAdjustments) s = f (adjustments s)"
  by (simp add: valueOf_def mapToken_def stepAdjustments_def makeLazy_def resolve_def)

lemma valueOf_makeConstant: "valueOf (makeConstant v) s = v"
  by (simp add: valueOf_def makeConstant_def resolve_def)

lemma StepScalingAction_construct_readers:
  "\<forall>t \<in> set (constructTokens (StepScalingAction_construct num ident this)). readsOnly t"
proof -
  have "readsOnly (stepAdjustments :: ('a StepScalingAction, 'a StepAdjustmentProperty list) Token)"
    unfolding stepAdjustments_def by (rule readsOnly_reader)
  then show ?thesis
    by (simp add: StepScalingAction_construct_def readsOnly_makeConstant readsOnly_mapToken)
qed

lemma generated_policyName:
  "policyName props = None \<or> policyName props = Some [] \<Longrightarrow>
   cfnPolicyName (resource (StepScalingAction_new hash arnOf scope ident props)) =
     uniqueId hash (scope @ [ident])"
  by (auto simp: StepScalingAction_new_def)

lemma object_defined: "object kvs \<noteq> JsUndefined"
  by (simp add: object_def)

lemma StepScalingAction_document:
  "describeNode scope (StepScalingAction_construct num ident this) s =
     [(scope @ [ident, ''Resource''], ''CfnScalingPolicy'',
       [(''policyName'', JsString (cfnPolicyName (resource this))),
        (''policyType'', JsString (cfnPolicyType (resource this))),
        (''scalingTargetId'', JsString (cfnScalingTargetId (resource this))),
        (''stepScalingPolicyConfiguration'',
           object
             [(''adjustmentType'',
                 optional (\<lambda>t. JsString (AdjustmentType_value t))
                   (cfnAdjustmentType (resource this))),
              (''cooldown'', optional num (cfnCooldown (resource this))),
              (''minAdjustmentMagnitude'',
                 optional num (cfnMinAdjustmentMagnitude (resource this))),
              (''metricAggregationType'',
                 optional (\<lambda>t. JsString (MetricAggregationType_value t))
                   (cfnMetricAggregationType (resource this))),
              (''stepAdjustments'', JsArray (map (stepAdjustmentValue num) (adjustments s)))])])]"
  by (simp add: StepScalingAction_construct_def valueOf_makeConstant
      valueOf_mapToken_stepAdjustments object_defined)

text \<open>
  A producer that changes the state makes the second synthesis differ from the first: the
  document depends on the state, and nothing but the producers of the tree keeps it.
\<close>

lemma mutating_producer_is_not_repeatable:
  "fst (synthesize countingStack 0) = Inr [([''Stack''], ''Counter'', [(''count'', JsNumber 0)])] \<and>
   fst (synthesize countingStack (snd (synthesize countingStack 0))) =
     Inr [([''Stack''], ''Counter'', [(''count'', JsNumber 1)])]"
  by (simp add: synthesize_def countingStack_def countingToken_def makeLazy_def resolve_def)

text \<open>
  C8. Synthesis walks the tree once. When every token of the tree only reads, the
  outcome is the document of the tree in the given state (the resource of every node
  followed by the documents of its children in insertion order) and the state is left as
  it is; so a second synthesis, with no mutation in between, has the same outcome, and
  whatever function writes a document as bytes writes the same bytes. The subtree of a
  step scaling action is such a tree: its document is the scaling policy with the policy
  name and the step adjustments in call order. The policy name generated when the
  properties give none (or the empty name) is the identifier hashed from the path of the
  node: two actions constructed at the same path get the same generated name, whatever
  else differs.
\<close>

theorem synthesis_is_repeatable:
  "((\<forall>t \<in> set (constructTokens root). readsOnly t) \<longrightarrow>
      synthesize root s = (Inr (describeNode [] root s), s) \<and>
      synthesize root (snd (synthesize root s)) = synthesize root s \<and>
      map_sum id serialize (fst (synthesize root (snd (synthesize root s)))) =
        map_sum id serialize (fst (synthesize root s))) \<and>
   synthesizeNode parentPath (StepScalingAction_construct num node a) a =
     (Inr [(parentPath @ [node, ''Resource''], ''CfnScalingPolicy'',
            [(''policyName'', JsString (cfnPolicyName (resource a))),
             (''policyType'', JsString (cfnPolicyType (resource a))),
             (''scalingTargetId'', JsString (cfnScalingTargetId (resource a))),
             (''stepScalingPolicyConfiguration'',
                object
                  [(''adjustmentType'',
                      optional (\<lambda>t. JsString (AdjustmentType_value t))
                        (cfnAdjustmentType (resource a))),
                   (''cooldown'', optional num (cfnCooldown (resource a))),
                   (''minAdjustmentMagnitude'',
                      optional num (cfnMinAdjustmentMagnitude (resource a))),
                   (''metricAggregationType'',
                      optional (\<lambda>t. JsString (MetricAggregationType_value t))
                        (cfnMetricAggregationType (resource a))),
                   (''stepAdjustments'',
                      JsArray (map (stepAdjustmentValue num) (adjustments a)))])])], a) \<and>
   ((policyName props = None \<or> policyName props = Some []) \<longrightarrow>
      cfnPolicyName (resource (StepScalingAction_new hash arnOf scope ident props)) =
        uniqueId hash (scope @ [ident])) \<and>
   ((policyName props = None \<or> policyName props = Some []) \<longrightarrow>
    (policyName props' = None \<or> policyName props' = Some []) \<longrightarrow>
    scope @ [ident] = scope' @ [ident'] \<longrightarrow>
      cfnPolicyName (resource (StepScalingAction_new hash arnOf scope ident props)) =
        cfnPolicyName (resource (StepScalingAction_new hash arnOf' scope' ident' props')))"
proof -
  have tree: "synthesize root s = (Inr (describeNode [] root s), s)"
    if "\<forall>t \<in> set (constructTokens root). readsOnly t"
    using that synthesize_readers(1) [of root "[]" s] by (simp add: synthesize_def)
  have action: "synthesizeNode parentPath (StepScalingAction_construct num node a) a =
      (Inr (describeNode parentPath (StepScalingAction_construct num node a) a), a)"
    using synthesize_readers(1) [of "StepScalingAction_construct num node a" parentPath a]
      StepScalingAction_construct_readers [of num node a]
    by blast
  have same_path: "cfnPolicyName (resource (StepScalingAction_new hash arnOf scope ident props)) =
      cfnPolicyName (resource (StepScalingAction_new hash arnOf' scope' ident' props'))"
    if "policyName props = None \<or> policyName props = Some []"
      and "policyName props' = None \<or> policyName props' = Some []"
      and "scope @ [ident] = scope' @ [ident']"
    using that generated_policyName [of props] generated_policyName [of props'] by simp
  from tree action [unfolded StepScalingAction_document]
    generated_policyName [of props hash arnOf scope ident] same_path
  show ?thesis by simp
qed

theorem synthesis_is_repeatable_witness:
  "synthesize exampleStack exampleScalingActionWithTiers =
     (Inr [([''Stack'', ''Scaling'', ''Resource''], ''CfnScalingPolicy'',
            [(''policyName'', JsString ''StackScaling''),
             (''policyType'', JsString ''StepScaling''),
             (''scalingTargetId'', JsString ''target''),
             (''stepScalingPolicyConfiguration'',
                JsObject
                  [(''stepAdjustments'',
                      JsArray
                        [JsObject [(''metricIntervalLowerBound'', JsNumber 10),
                                   (''scalingAdjustment'', JsNumber 1)],
                         JsObject [(''metricIntervalUpperBound'', JsNumber 10),
                                   (''scalingAdjustment'', JsNumber (- 1))]])])])],
      exampleScalingActionWithTiers) \<and>
   synthesize exampleStack (snd (synthesize exampleStack exampleScalingActionWithTiers)) =
     synthesize exampleStack exampleScalingActionWithTiers \<and>
   map_sum id exampleSerialize
       (fst (synthesize exampleStack (snd (synthesize exampleStack exampleScalingActionWithTiers)))) =
     Inr ''StackScalingResource:CfnScalingPolicy'' \<and>
   cfnPolicyName (resource exampleScalingAction) = uniqueId exampleHash ([''Stack''] @ [''Scaling'']) \<and>
   cfnPolicyName (resource exampleScalingAction) =
     cfnPolicyName (resource
       (StepScalingAction_new exampleHash (\<lambda>p. ''arn'') [''Stack''] ''Scaling''
          exampleScalingPropsEmptyName))"
proof -
  have none: "policyName exampleScalingProps = None \<or> policyName exampleScalingProps = Some []"
    by (simp add: exampleScalingProps_def)
  have empty: "policyName exampleScalingPropsEmptyName = None \<or>
      policyName exampleScalingPropsEmptyName = Some []"
    by (simp add: exampleScalingPropsEmptyName_def)
  have readers: "\<forall>t \<in> set (constructTokens exampleStack). readsOnly t"
    using StepScalingAction_construct_readers [of JsNumber "''Scaling''" exampleScalingActionWithTiers]
    by (simp add: exampleStack_def)
  have state: "adjustments exampleScalingActionWithTiers =
      [\<lparr> metricIntervalLowerBound = Some 10, metricIntervalUpperBound = None,
         scalingAdjustment = 1 \<rparr>,
       \<lparr> metricIntervalLowerBound = None, metricIntervalUpperBound = Some 10,
         scalingAdjustment = -1 \<rparr>]"
    "resource exampleScalingActionWithTiers = resource exampleScalingAction"
    by (simp_all add: exampleScalingActionWithTiers_def exampleScalingAction_def
        StepScalingAction_new_def addAdjustment_def tierFrom10_def tierUpTo10_def)
  have props: "resource exampleScalingAction =
      \<lparr> cfnPolicyName = ''StackScaling'', cfnPolicyType = ''StepScaling'',
        cfnScalingTargetId = ''target'', cfnAdjustmentType = None, cfnCooldown = None,
        cfnMinAdjustmentMagnitude = None, cfnMetricAggregationType = None \<rparr>"
    by (simp add: exampleScalingAction_def StepScalingAction_new_def exampleScalingProps_def
        uniqueId_def exampleHash_def)
  have doc: "describeNode [] exampleStack exampleScalingActionWithTiers =
      [([''Stack'', ''Scaling'', ''Resource''], ''CfnScalingPolicy'',
            [(''policyName'', JsString ''StackScaling''),
             (''policyType'', JsString ''StepScaling''),
             (''scalingTargetId'', JsString ''target''),
             (''stepScalingPolicyConfiguration'',
                JsObject
                  [(''stepAdjustments'',
                      JsArray
                        [JsObject [(''metricIntervalLowerBound'', JsNumber 10),
                                   (''scalingAdjustment'', JsNumber 1)],
                         JsObject [(''metricIntervalUpperBound'', JsNumber 10),
                                   (''scalingAdjustment'', JsNumber (- 1))]])])])]"
    by (simp add: exampleStack_def StepScalingAction_document state props object_def
        optional_def stepAdjustmentValue_def)
  note inst = synthesis_is_repeatable
      [of exampleStack exampleScalingActionWithTiers exampleSerialize
          "[]" JsNumber "''Scaling''" exampleScalingActionWithTiers
          exampleScalingProps exampleHash exampleArnOf "[''Stack'']" "''Scaling''"
          exampleScalingPropsEmptyName "[''Stack'']" "''Scaling''" "\<lambda>p. ''arn''"]
  from inst readers
  have out: "synthesize exampleStack exampleScalingActionWithTiers =
      (Inr (describeNode [] exampleStack exampleScalingActionWithTiers),
       exampleScalingActionWithTiers)"
    and again: "synthesize exampleStack (snd (synthesize exampleStack exampleScalingActionWithTiers)) =
      synthesize exampleStack exampleScalingActionWithTiers"
    by blast+
  from inst none empty
  have names: "cfnPolicyName (resource (StepScalingAction_new exampleHash exampleArnOf
          [''Stack''] ''Scaling'' exampleScalingProps)) =
        uniqueId exampleHash ([''Stack''] @ [''Scaling''])"
    "cfnPolicyName (resource (StepScalingAction_new exampleHash exampleArnOf
          [''Stack''] ''Scaling'' exampleScalingProps)) =
     cfnPolicyName (resource
       (StepScalingAction_new exampleHash (\<lambda>p. ''arn'') [''Stack''] ''Scaling''
          exampleScalingPropsEmptyName))"
    by blast+
  have bytes: "map_sum id exampleSerialize
       (fst (synthesize exampleStack (snd (synthesize exampleStack exampleScalingActionWithTiers)))) =
     Inr ''StackScalingResource:CfnScalingPolicy''"
    by (simp add: again out doc exampleSerialize_def)
  from out again bytes names show ?thesis
    by (simp add: doc exampleScalingAction_def)
qed

section \<open>Properties of the construct tree and of topics\<close>

lemma createChild_duplicate:
  "name \<in> set (map fst (children parent)) \<Longrightarrow>
   createChild parent name c = (Inl (DuplicateIdError name), parent)"
  by (simp add: createChild_def)

lemma createChild_then_duplicate:
  assumes "createChild parent name c1 = (Inr (), parent1)"
  shows "createChild parent1 name c2 = (Inl (DuplicateIdError name), parent1) \<and>
         tryFindChild parent1 name = Some c1"
proof -
  from assms have fresh: "name \<notin> set (map fst (children parent))"
    by (auto simp: createChild_def split: if_splits)
  with assms have p1: "parent1 = parent\<lparr> children := children parent @ [(name, c1)] \<rparr>"
    by (simp add: createChild_def)
  show ?thesis
    using fresh
    by (simp add: p1 createChild_def tryFindChild_def map_add_Some_iff map_of_eq_None_iff)
qed

lemma TopicPolicy_new_keeps:
  "map_of (children scope) n = Some c \<Longrightarrow>
   map_of (children (snd (TopicPolicy_new scope name topics))) n = Some c \<and>
   nodeId (snd (TopicPolicy_new scope name topics)) = nodeId scope"
  by (simp add: TopicPolicy_new_def createChild_def map_add_Some_iff)

lemma Queue_addToResourcePolicy_keeps:
  assumes "map_of (children (queueNode q)) n = Some c"
  shows "map_of (children (queueNode (snd (Queue_addToResourcePolicy q s)))) n = Some c \<and>
         nodeId (queueNode (snd (Queue_addToResourcePolicy q s))) = nodeId (queueNode q) \<and>
         queueIsConstruct (snd (Queue_addToResourcePolicy q s)) = queueIsConstruct q"
  using TopicPolicy_new_keeps [OF assms, of "''Policy''" "[]"] assms
  by (auto simp: Queue_addToResourcePolicy_def split: prod.splits sum.splits option.splits)

lemma subscribeQueue_twice:
  assumes "subscribeQueue this queue raw = (Inr sub, queue1)"
  shows "subscribeQueue this queue1 raw' =
           (Inl (Error (''A subscription between the topic '' @ nodeId (topicNode this) @
                        '' and the queue '' @ nodeId (queueNode queue1) @
                        '' already exists'')), queue1) \<and>
         tryFindChild (queueNode queue1) (nodeId (topicNode this) @ ''Subscription'') =
           Some (SubscriptionChild (subscriptionProps sub))"
proof -
  let ?n = "nodeId (topicNode this) @ ''Subscription''"
  let ?props = "\<lparr> topic = topicArn this, endpoint = queueArn queue, protocol = Sqs,
                  rawMessageDelivery = raw \<rparr>"
  let ?stmt = "setCondition ''ArnEquals'' [(''aws:SourceArn'', topicArn this)]
                 (addServicePrincipal ''sns.amazonaws.com''
                   (addAction ''sqs:SendMessage''
                     (addResource (queueArn queue) PolicyStatement_new)))"
  from assms have isc: "queueIsConstruct queue"
    by (auto simp: subscribeQueue_def split: if_splits)
  from assms isc have fresh: "tryFindChild (queueNode queue) ?n = None"
    by (auto simp: subscribeQueue_def Let_def split: if_splits)
  then have notin: "?n \<notin> set (map fst (children (queueNode queue)))"
    by (simp add: tryFindChild_def map_of_eq_None_iff)
  let ?node' = "(queueNode queue)\<lparr> children :=
      children (queueNode queue) @ [(?n, SubscriptionChild ?props)] \<rparr>"
  have new: "Subscription_new (queueNode queue) ?n ?props =
      (Inr \<lparr> subscriptionName = ?n, subscriptionProps = ?props \<rparr>, ?node')"
    using notin by (simp add: Subscription_new_def createChild_def)
  let ?q' = "queue\<lparr> queueNode := ?node' \<rparr>"
  from assms isc fresh new
  have res: "sub = \<lparr> subscriptionName = ?n, subscriptionProps = ?props \<rparr>"
    and q1: "queue1 = snd (Queue_addToResourcePolicy ?q' ?stmt)"
    by (auto simp: subscribeQueue_def Let_def split: prod.splits sum.splits)
  have found': "map_of (children (queueNode ?q')) ?n = Some (SubscriptionChild ?props)"
    using notin by (simp add: map_add_Some_iff map_of_eq_None_iff)
  from Queue_addToResourcePolicy_keeps [OF found', of ?stmt]
  have found: "map_of (children (queueNode queue1)) ?n = Some (SubscriptionChild ?props)"
    and isc1: "queueIsConstruct queue1"
    using isc by (simp_all add: q1)
  show ?thesis
    using found isc1 by (simp add: subscribeQueue_def Let_def tryFindChild_def res)
qed

text \<open>
  C5. Creating a child whose id already exists among the children of the parent fails with
  \<open>DuplicateIdError\<close> and leaves the parent as it was. After a child was created, a
  second creation under the same id fails, and the id still finds the child created
  first. After a queue was subscribed to a topic, subscribing it to the same topic again
  fails, because the id of the subscription is found among the children of the queue;
  the queue is left as it was, and the id still finds the first subscription.
\<close>

theorem duplicate_child_id_fails:
  "(name \<in> set (map fst (children parent)) \<longrightarrow>
      createChild parent name c = (Inl (DuplicateIdError name), parent)) \<and>
   (createChild parent name c1 = (Inr (), parent1) \<longrightarrow>
      createChild parent1 name c2 = (Inl (DuplicateIdError name), parent1) \<and>
      tryFindChild parent1 name = Some c1) \<and>
   (subscribeQueue this queue raw = (Inr sub, queue1) \<longrightarrow>
      subscribeQueue this queue1 raw' =
        (Inl (Error (''A subscription between the topic '' @ nodeId (topicNode this) @
                     '' and the queue '' @ nodeId (queueNode queue1) @
                     '' already exists'')), queue1) \<and>
      tryFindChild (queueNode queue1) (nodeId (topicNode this) @ ''Subscription'') =
        Some (SubscriptionChild (subscriptionProps sub)))"
proof (intro conjI impI)
  assume "name \<in> set (map fst (children parent))"
  then show "createChild parent name c = (Inl (DuplicateIdError name), parent)"
    by (rule createChild_duplicate)
next
  assume first: "createChild parent name c1 = (Inr (), parent1)"
  from createChild_then_duplicate [OF first]
  show "createChild parent1 name c2 = (Inl (DuplicateIdError name), parent1)"
    and "tryFindChild parent1 name = Some c1"
    by simp_all
next
  assume first: "subscribeQueue this queue raw = (Inr sub, queue1)"
  from subscribeQueue_twice [OF first]
  show "subscribeQueue this queue1 raw' =
        (Inl (Error (''A subscription between the topic '' @ nodeId (topicNode this) @
                     '' and the queue '' @ nodeId (queueNode queue1) @
                     '' already exists'')), queue1)"
    and "tryFindChild (queueNode queue1) (nodeId (topicNode this) @ ''Subscription'') =
        Some (SubscriptionChild (subscriptionProps sub))"
    by simp_all
qed

lemmas topic_defs = subscribeQueue_def liveTopic_def exampleQueue_def TopicBase_new_def
  tryFindChild_def Subscription_new_def createChild_def Queue_addToResourcePolicy_def
  TopicPolicy_new_def addStatement_def setCondition_def addServicePrincipal_def addAction_def
  addResource_def PolicyStatement_new_def Let_def

theorem duplicate_child_id_fails_witness:
  "createChild exampleNode ''First''
       (SubscriptionChild \<lparr> topic = ''t'', endpoint = ''e'', protocol = Sqs,
                             rawMessageDelivery = None \<rparr>) =
     (Inl (DuplicateIdError ''First''), exampleNode) \<and>
   createChild (snd (createChild exampleNode ''Second'' PolicyChild)) ''Second''
       (SubscriptionChild \<lparr> topic = ''t'', endpoint = ''e'', protocol = Sqs,
                             rawMessageDelivery = None \<rparr>) =
     (Inl (DuplicateIdError ''Second''), snd (createChild exampleNode ''Second'' PolicyChild)) \<and>
   tryFindChild (snd (createChild exampleNode ''Second'' PolicyChild)) ''Second'' =
     Some PolicyChild \<and>
   subscribeQueue liveTopic (snd (subscribeQueue liveTopic exampleQueue None)) (Some True) =
     (Inl (Error ''A subscription between the topic MyTopic and the queue MyQueue already exists''),
      snd (subscribeQueue liveTopic exampleQueue None)) \<and>
   tryFindChild (queueNode (snd (subscribeQueue liveTopic exampleQueue None)))
       ''MyTopicSubscription'' =
     Some (SubscriptionChild \<lparr> topic = ''arn:aws:sns:topic'', endpoint = ''arn:aws:sqs:queue'',
                                 protocol = Sqs, rawMessageDelivery = None \<rparr>)"
proof -
  let ?p = "\<lparr> topic = ''t'', endpoint = ''e'', protocol = Sqs, rawMessageDelivery = None \<rparr>"
  let ?sub = "\<lparr> subscriptionName = ''MyTopicSubscription'',
                subscriptionProps = \<lparr> topic = ''arn:aws:sns:topic'',
                  endpoint = ''arn:aws:sqs:queue'', protocol = Sqs,
                  rawMessageDelivery = None \<rparr> \<rparr>"
  let ?q1 = "snd (subscribeQueue liveTopic exampleQueue None)"
  let ?n1 = "snd (createChild exampleNode ''Second'' PolicyChild)"
  have exists: "''First'' \<in> set (map fst (children exampleNode))"
    by (simp add: exampleNode_def)
  have created: "createChild exampleNode ''Second'' PolicyChild = (Inr (), ?n1)"
    by (simp add: createChild_def exampleNode_def)
  have subscribed: "subscribeQueue liveTopic exampleQueue None = (Inr ?sub, ?q1)"
    by (simp add: topic_defs)
  have ids: "nodeId (topicNode liveTopic) = ''MyTopic''" "nodeId (queueNode ?q1) = ''MyQueue''"
    by (simp_all add: topic_defs)
  note second = duplicate_child_id_fails
      [of "''Second''" exampleNode "SubscriptionChild ?p" "PolicyChild" ?n1 "SubscriptionChild ?p"
          liveTopic exampleQueue None ?sub ?q1 "Some True"]
  note first = duplicate_child_id_fails
      [of "''First''" exampleNode "SubscriptionChild ?p" "PolicyChild" ?n1 "SubscriptionChild ?p"
          liveTopic exampleQueue None ?sub ?q1 "Some True"]
  from first exists have one: "createChild exampleNode ''First'' (SubscriptionChild ?p) =
      (Inl (DuplicateIdError ''First''), exampleNode)"
    by simp
  from second created subscribed ids one show ?thesis
    by simp
qed

lemma addToResourcePolicy_first:
  "autoCreatePolicy this \<Longrightarrow> policy this = None \<Longrightarrow>
   tryFindChild (topicNode this) ''Policy'' = None \<Longrightarrow>
   addToResourcePolicy this statement =
     (Inr (), this\<lparr> topicNode := (topicNode this)\<lparr> children :=
                       children (topicNode this) @ [(''Policy'', PolicyChild)] \<rparr>,
                    policy := Some \<lparr> policyTopics = [topicArn this], document = [statement] \<rparr> \<rparr>)"
  by (simp add: addToResourcePolicy_def TopicPolicy_new_def createChild_def tryFindChild_def
      addStatement_def map_of_eq_None_iff)

lemma addToResourcePolicy_later:
  "policy this = Some p \<Longrightarrow>
   addToResourcePolicy this statement =
     (Inr (), this\<lparr> policy := Some (p\<lparr> document := document p @ [statement] \<rparr>) \<rparr>)"
  by (simp add: addToResourcePolicy_def addStatement_def)

lemma addToResourcePolicy_imported:
  "\<not> autoCreatePolicy this \<Longrightarrow> policy this = None \<Longrightarrow>
   addToResourcePolicy this statement = (Inr (), this)"
  by (simp add: addToResourcePolicy_def)

lemma addToResourcePolicy_duplicate:
  "autoCreatePolicy this \<Longrightarrow> policy this = None \<Longrightarrow>
   tryFindChild (topicNode this) ''Policy'' \<noteq> None \<Longrightarrow>
   addToResourcePolicy this statement = (Inl (DuplicateIdError ''Policy''), this)"
  by (cases this)
     (simp add: addToResourcePolicy_def TopicPolicy_new_def createChild_def tryFindChild_def
        map_of_eq_None_iff)

lemma addToResourcePolicy_calls_later:
  "policy this = Some p \<Longrightarrow>
   addToResourcePolicy_calls this ss =
     (Inr (), this\<lparr> policy := Some (p\<lparr> document := document p @ ss \<rparr>) \<rparr>)"
proof (induction ss arbitrary: this p)
  case Nil
  then show ?case by (cases this) simp
next
  case (Cons s ss)
  then show ?case by (simp add: addToResourcePolicy_later)
qed

lemma addToResourcePolicy_calls_imported:
  "\<not> autoCreatePolicy this \<Longrightarrow> policy this = None \<Longrightarrow>
   addToResourcePolicy_calls this ss = (Inr (), this)"
  by (induction ss) (simp_all add: addToResourcePolicy_imported)

lemma addToResourcePolicy_calls_live:
  "autoCreatePolicy this \<Longrightarrow> policy this = None \<Longrightarrow>
   tryFindChild (topicNode this) ''Policy'' = None \<Longrightarrow> ss \<noteq> [] \<Longrightarrow>
   addToResourcePolicy_calls this ss =
     (Inr (), this\<lparr> topicNode := (topicNode this)\<lparr> children :=
                       children (topicNode this) @ [(''Policy'', PolicyChild)] \<rparr>,
                    policy := Some \<lparr> policyTopics = [topicArn this], document = ss \<rparr> \<rparr>)"
  by (cases ss) (simp_all add: addToResourcePolicy_first addToResourcePolicy_calls_later)

text \<open>
  C4, as the claim states it, fails: the first call of \<^verbatim>\<open>addToResourcePolicy\<close> on a live topic
  does not create a policy resource when the topic already has a child with the id
  \<^verbatim>\<open>Policy\<close>. The topic below is the live topic after the successful call
  \<^verbatim>\<open>subscribe('Policy', 'https://example.com/hook', Https)\<close>; it has no policy yet, and the call
  fails with \<open>DuplicateIdError\<close>, leaving the topic without a policy.
\<close>

theorem addToResourcePolicy_first_call_counterexample:
  "fst (subscribe liveTopic ''Policy'' ''https://example.com/hook'' Https None) =
     Inr \<lparr> subscriptionName = ''Policy'',
           subscriptionProps = \<lparr> topic = ''arn:aws:sns:topic'',
             endpoint = ''https://example.com/hook'', protocol = Https,
             rawMessageDelivery = None \<rparr> \<rparr> \<and>
   autoCreatePolicy topicWithSubscriptionNamedPolicy \<and>
   policy topicWithSubscriptionNamedPolicy = None \<and>
   addToResourcePolicy topicWithSubscriptionNamedPolicy publishStatement =
     (Inl (DuplicateIdError ''Policy''), topicWithSubscriptionNamedPolicy) \<and>
   policy (snd (addToResourcePolicy topicWithSubscriptionNamedPolicy publishStatement)) = None \<and>
   PolicyChild \<notin> snd ` set (children (topicNode
       (snd (addToResourcePolicy topicWithSubscriptionNamedPolicy publishStatement))))"
  by (simp add: topicWithSubscriptionNamedPolicy_def subscribe_def addToResourcePolicy_def
      topic_defs)

lemma Topic_construct_readers:
  "\<forall>t \<in> set (constructTokens (Topic_construct pv sv this)). readsOnly t"
  by (auto simp: Topic_construct_def readsOnly_makeConstant readsOnly_reader split: Child.splits)

lemma Topic_document_types:
  assumes "PolicyChild \<notin> snd ` set (children (topicNode this))"
  shows "\<forall>r \<in> set (describeNode scope (Topic_construct pv sv this) s). fst (snd r) \<noteq> ''TopicPolicy''"
proof -
  from assms have "\<And>a. (a, PolicyChild) \<notin> set (children (topicNode this))"
    by force
  then show ?thesis
    by (auto simp: Topic_construct_def split: Child.splits)
qed

lemma synthesize_topic:
  "synthesize (Construct rootId None [] [Topic_construct pv sv this]) s =
     (Inr (describeNode [rootId] (Topic_construct pv sv this) s), s)"
proof -
  have "\<forall>t \<in> set (constructTokens (Construct rootId None [] [Topic_construct pv sv this])).
      readsOnly t"
    using Topic_construct_readers [of pv sv this] by simp
  with synthesize_readers(1) [of "Construct rootId None [] [Topic_construct pv sv this]" "[]" s]
  show ?thesis by (simp add: synthesize_def)
qed

lemma synthesize_imported_topic:
  assumes "\<not> autoCreatePolicy this" "policy this = None"
    "PolicyChild \<notin> snd ` set (children (topicNode this))"
  shows "\<exists>doc. synthesize
             (Construct rootId None []
                [Topic_construct pv sv (snd (addToResourcePolicy this statement))])
             (snd (addToResourcePolicy this statement)) = (Inr doc, this) \<and>
           (\<forall>r \<in> set doc. fst (snd r) \<noteq> ''TopicPolicy'')"
  using assms Topic_document_types [OF assms(3), of "[rootId]" pv sv this]
  by (simp add: addToResourcePolicy_imported synthesize_topic)

lemma synthesize_new_imported_topic:
  "synthesize
     (Construct rootId None []
        [Topic_construct pv sv
           (snd (addToResourcePolicy (TopicBase_new ident arn name False) statement))])
     (snd (addToResourcePolicy (TopicBase_new ident arn name False) statement)) =
   (Inr [], TopicBase_new ident arn name False)"
proof -
  have "addToResourcePolicy (TopicBase_new ident arn name False) statement =
      (Inr (), TopicBase_new ident arn name False)"
    by (simp add: addToResourcePolicy_imported TopicBase_new_def)
  then show ?thesis
    by (simp add: synthesize_topic) (simp add: Topic_construct_def TopicBase_new_def)
qed

lemma synthesize_new_live_topic:
  "synthesize
     (Construct rootId None []
        [Topic_construct pv sv
           (snd (addToResourcePolicy (TopicBase_new ident arn name True) statement))])
     (snd (addToResourcePolicy (TopicBase_new ident arn name True) statement)) =
   (Inr [([rootId, ident, ''Policy''], ''TopicPolicy'',
          [(''topics'', JsArray [JsString arn]),
           (''policyDocument'', JsArray [sv statement])])],
    snd (addToResourcePolicy (TopicBase_new ident arn name True) statement))"
proof -
  have "addToResourcePolicy (TopicBase_new ident arn name True) statement =
      (Inr (), (TopicBase_new ident arn name True)
         \<lparr> topicNode := (topicNode (TopicBase_new ident arn name True))\<lparr> children :=
              children (topicNode (TopicBase_new ident arn name True)) @
              [(''Policy'', PolicyChild)] \<rparr>,
           policy := Some \<lparr> policyTopics = [topicArn (TopicBase_new ident arn name True)],
                            document = [statement] \<rparr> \<rparr>)"
    by (rule addToResourcePolicy_first) (simp_all add: TopicBase_new_def tryFindChild_def)
  then show ?thesis
    by (simp add: synthesize_topic)
       (simp add: Topic_construct_def TopicBase_new_def valueOf_def resolve_def makeLazy_def
          optional_def)
qed

text \<open>
  C4, amended. On a live topic without a policy, the first call creates the policy
  resource, as the child \<^verbatim>\<open>Policy\<close>, and puts the statement into its document, provided that
  no child of the topic has the id \<^verbatim>\<open>Policy\<close>; when one has, the call fails with
  \<open>DuplicateIdError\<close> and changes nothing. A call on a topic that has a policy appends the
  statement to the document of that policy and creates nothing. So a sequence of calls
  on such a live topic creates one policy resource, whose document is the statements in
  call order. On an imported topic (\<^verbatim>\<open>autoCreatePolicy\<close> false, no policy) every call
  succeeds and changes nothing, so synthesizing a tree that contains only an imported
  topic, after one call, gives a document with no policy resource (the empty document
  for a topic that was just imported), where the same tree with a new live topic gives
  the policy resource with the statement.
\<close>

theorem addToResourcePolicy_creates_reuses_or_drops:
  "(autoCreatePolicy this \<and> policy this = None \<and>
    tryFindChild (topicNode this) ''Policy'' = None \<longrightarrow>
      addToResourcePolicy this statement =
        (Inr (), this\<lparr> topicNode := (topicNode this)\<lparr> children :=
                          children (topicNode this) @ [(''Policy'', PolicyChild)] \<rparr>,
                       policy := Some \<lparr> policyTopics = [topicArn this],
                                        document = [statement] \<rparr> \<rparr>)) \<and>
   (autoCreatePolicy this \<and> policy this = None \<and>
    tryFindChild (topicNode this) ''Policy'' \<noteq> None \<longrightarrow>
      addToResourcePolicy this statement = (Inl (DuplicateIdError ''Policy''), this)) \<and>
   (policy this = Some p \<longrightarrow>
      addToResourcePolicy this statement =
        (Inr (), this\<lparr> policy := Some (p\<lparr> document := document p @ [statement] \<rparr>) \<rparr>)) \<and>
   (autoCreatePolicy this \<and> policy this = None \<and>
    tryFindChild (topicNode this) ''Policy'' = None \<and> ss \<noteq> [] \<longrightarrow>
      addToResourcePolicy_calls this ss =
        (Inr (), this\<lparr> topicNode := (topicNode this)\<lparr> children :=
                          children (topicNode this) @ [(''Policy'', PolicyChild)] \<rparr>,
                       policy := Some \<lparr> policyTopics = [topicArn this], document = ss \<rparr> \<rparr>)) \<and>
   (\<not> autoCreatePolicy this \<and> policy this = None \<longrightarrow>
      addToResourcePolicy_calls this ss = (Inr (), this)) \<and>
   addToResourcePolicy_calls (TopicBase_new ident arn name False) ss =
     (Inr (), TopicBase_new ident arn name False) \<and>
   children (topicNode (snd (addToResourcePolicy (TopicBase_new ident arn name False) statement))) = [] \<and>
   policy (snd (addToResourcePolicy (TopicBase_new ident arn name False) statement)) = None \<and>
   (\<not> autoCreatePolicy this \<and> policy this = None \<longrightarrow>
      addToResourcePolicy this statement = (Inr (), this)) \<and>
   (\<not> autoCreatePolicy this \<and> policy this = None \<and>
    PolicyChild \<notin> snd ` set (children (topicNode this)) \<longrightarrow>
      (\<exists>doc. synthesize
               (Construct rootId None []
                  [Topic_construct pv sv (snd (addToResourcePolicy this statement))])
               (snd (addToResourcePolicy this statement)) = (Inr doc, this) \<and>
             (\<forall>r \<in> set doc. fst (snd r) \<noteq> ''TopicPolicy''))) \<and>
   synthesize
       (Construct rootId None []
          [Topic_construct pv sv
             (snd (addToResourcePolicy (TopicBase_new ident arn name False) statement))])
       (snd (addToResourcePolicy (TopicBase_new ident arn name False) statement)) =
     (Inr [], TopicBase_new ident arn name False) \<and>
   synthesize
       (Construct rootId None []
          [Topic_construct pv sv
             (snd (addToResourcePolicy (TopicBase_new ident arn name True) statement))])
       (snd (addToResourcePolicy (TopicBase_new ident arn name True) statement)) =
     (Inr [([rootId, ident, ''Policy''], ''TopicPolicy'',
            [(''topics'', JsArray [JsString arn]),
             (''policyDocument'', JsArray [sv statement])])],
      snd (addToResourcePolicy (TopicBase_new ident arn name True) statement))"
proof -
  have imported: "\<not> autoCreatePolicy (TopicBase_new ident arn name False)"
    "policy (TopicBase_new ident arn name False) = None"
    "children (topicNode (TopicBase_new ident arn name False)) = []"
    by (simp_all add: TopicBase_new_def)
  have calls: "(autoCreatePolicy this \<and> policy this = None \<and>
    tryFindChild (topicNode this) ''Policy'' = None \<longrightarrow>
      addToResourcePolicy this statement =
        (Inr (), this\<lparr> topicNode := (topicNode this)\<lparr> children :=
                          children (topicNode this) @ [(''Policy'', PolicyChild)] \<rparr>,
                       policy := Some \<lparr> policyTopics = [topicArn this],
                                        document = [statement] \<rparr> \<rparr>)) \<and>
   (autoCreatePolicy this \<and> policy this = None \<and>
    tryFindChild (topicNode this) ''Policy'' \<noteq> None \<longrightarrow>
      addToResourcePolicy this statement = (Inl (DuplicateIdError ''Policy''), this)) \<and>
   (policy this = Some p \<longrightarrow>
      addToResourcePolicy this statement =
        (Inr (), this\<lparr> policy := Some (p\<lparr> document := document p @ [statement] \<rparr>) \<rparr>)) \<and>
   (autoCreatePolicy this \<and> policy this = None \<and>
    tryFindChild (topicNode this) ''Policy'' = None \<and> ss \<noteq> [] \<longrightarrow>
      addToResourcePolicy_calls this ss =
        (Inr (), this\<lparr> topicNode := (topicNode this)\<lparr> children :=
                          children (topicNode this) @ [(''Policy'', PolicyChild)] \<rparr>,
                       policy := Some \<lparr> policyTopics = [topicArn this], document = ss \<rparr> \<rparr>)) \<and>
   (\<not> autoCreatePolicy this \<and> policy this = None \<longrightarrow>
      addToResourcePolicy_calls this ss = (Inr (), this)) \<and>
   addToResourcePolicy_calls (TopicBase_new ident arn name False) ss =
     (Inr (), TopicBase_new ident arn name False) \<and>
   children (topicNode (snd (addToResourcePolicy (TopicBase_new ident arn name False) statement))) = [] \<and>
   policy (snd (addToResourcePolicy (TopicBase_new ident arn name False) statement)) = None \<and>
   (\<not> autoCreatePolicy this \<and> policy this = None \<longrightarrow>
      addToResourcePolicy this statement = (Inr (), this))"
    using imported
    by (simp add: addToResourcePolicy_first addToResourcePolicy_duplicate
        addToResourcePolicy_later addToResourcePolicy_calls_live
        addToResourcePolicy_calls_imported addToResourcePolicy_imported)
  from calls synthesize_imported_topic [of this rootId pv sv statement]
    synthesize_new_imported_topic [of rootId pv sv ident arn name statement]
    synthesize_new_live_topic [of rootId pv sv ident arn name statement]
  show ?thesis by blast
qed

theorem addToResourcePolicy_creates_reuses_or_drops_witness:
  "policy (snd (addToResourcePolicy liveTopic publishStatement)) =
     Some \<lparr> policyTopics = [''arn:aws:sns:topic''], document = [publishStatement] \<rparr> \<and>
   children (topicNode (snd (addToResourcePolicy liveTopic publishStatement))) =
     [(''Policy'', PolicyChild)] \<and>
   addToResourcePolicy topicWithSubscriptionNamedPolicy publishStatement =
     (Inl (DuplicateIdError ''Policy''), topicWithSubscriptionNamedPolicy) \<and>
   policy (snd (addToResourcePolicy liveTopicWithPolicy otherStatement)) =
     Some \<lparr> policyTopics = [''arn:aws:sns:topic''],
            document = [publishStatement, otherStatement] \<rparr> \<and>
   children (topicNode (snd (addToResourcePolicy liveTopicWithPolicy otherStatement))) =
     [(''Policy'', PolicyChild)] \<and>
   policy (snd (addToResourcePolicy_calls liveTopic [publishStatement, otherStatement])) =
     Some \<lparr> policyTopics = [''arn:aws:sns:topic''],
            document = [publishStatement, otherStatement] \<rparr> \<and>
   addToResourcePolicy_calls importedTopic [publishStatement] = (Inr (), importedTopic) \<and>
   synthesize
       (Construct ''App'' None []
          [Topic_construct exampleProtocolValue exampleStatementValue
             (snd (addToResourcePolicy importedTopic publishStatement))])
       (snd (addToResourcePolicy importedTopic publishStatement)) =
     (Inr [], importedTopic) \<and>
   fst (synthesize
       (Construct ''App'' None []
          [Topic_construct exampleProtocolValue exampleStatementValue
             (snd (addToResourcePolicy liveTopic publishStatement))])
       (snd (addToResourcePolicy liveTopic publishStatement))) =
     Inr [([''App'', ''MyTopic'', ''Policy''], ''TopicPolicy'',
           [(''topics'', JsArray [JsString ''arn:aws:sns:topic'']),
            (''policyDocument'',
               JsArray [JsObject [(''Action'', JsArray [JsString ''sns:Publish'']),
                                  (''Resource'', JsArray [JsString ''arn:aws:sns:topic''])]])])]"
proof -
  let ?p = "\<lparr> policyTopics = [''arn:aws:sns:topic''], document = [publishStatement] \<rparr>"
  have live: "autoCreatePolicy liveTopic \<and> policy liveTopic = None \<and>
      tryFindChild (topicNode liveTopic) ''Policy'' = None"
    by (simp add: liveTopic_def TopicBase_new_def tryFindChild_def)
  have live_node: "children (topicNode liveTopic) = []" "topicArn liveTopic = ''arn:aws:sns:topic''"
    by (simp_all add: liveTopic_def TopicBase_new_def)
  have taken: "autoCreatePolicy topicWithSubscriptionNamedPolicy \<and>
      policy topicWithSubscriptionNamedPolicy = None \<and>
      tryFindChild (topicNode topicWithSubscriptionNamedPolicy) ''Policy'' \<noteq> None"
    by (simp add: topicWithSubscriptionNamedPolicy_def subscribe_def topic_defs)
  have imported: "\<not> autoCreatePolicy importedTopic \<and> policy importedTopic = None"
    by (simp add: importedTopic_def TopicBase_new_def)
  note on_live = addToResourcePolicy_creates_reuses_or_drops
      [of liveTopic publishStatement ?p "[publishStatement, otherStatement]"
          "''Imported''" "''arn:aws:sns:imported''" "''Imported''"]
  from on_live live live_node
  have first: "addToResourcePolicy liveTopic publishStatement =
      (Inr (), liveTopic\<lparr> topicNode := (topicNode liveTopic)\<lparr> children :=
                            [(''Policy'', PolicyChild)] \<rparr>,
                          policy := Some ?p \<rparr>)"
    and calls: "addToResourcePolicy_calls liveTopic [publishStatement, otherStatement] =
      (Inr (), liveTopic\<lparr> topicNode := (topicNode liveTopic)\<lparr> children :=
                            [(''Policy'', PolicyChild)] \<rparr>,
                          policy := Some \<lparr> policyTopics = [''arn:aws:sns:topic''],
                            document = [publishStatement, otherStatement] \<rparr> \<rparr>)"
    by (simp_all del: addToResourcePolicy_calls.simps)
  have with_policy: "policy liveTopicWithPolicy = Some ?p"
    "children (topicNode liveTopicWithPolicy) = [(''Policy'', PolicyChild)]"
    by (simp_all add: liveTopicWithPolicy_def first)
  from addToResourcePolicy_creates_reuses_or_drops
      [of liveTopicWithPolicy otherStatement ?p "[]"
          "''Imported''" "''arn:aws:sns:imported''" "''Imported''"] with_policy
  have later: "addToResourcePolicy liveTopicWithPolicy otherStatement =
      (Inr (), liveTopicWithPolicy\<lparr> policy :=
         Some (?p\<lparr> document := document ?p @ [otherStatement] \<rparr>) \<rparr>)"
    by simp
  from addToResourcePolicy_creates_reuses_or_drops
      [of topicWithSubscriptionNamedPolicy publishStatement ?p "[]"
          "''Imported''" "''arn:aws:sns:imported''" "''Imported''"] taken
  have dup: "addToResourcePolicy topicWithSubscriptionNamedPolicy publishStatement =
      (Inl (DuplicateIdError ''Policy''), topicWithSubscriptionNamedPolicy)"
    by simp
  from addToResourcePolicy_creates_reuses_or_drops
      [of importedTopic publishStatement ?p "[publishStatement]"
          "''Imported''" "''arn:aws:sns:imported''" "''Imported''"] imported
  have drop: "addToResourcePolicy_calls importedTopic [publishStatement] = (Inr (), importedTopic)"
    by (simp del: addToResourcePolicy_calls.simps)
  note synth = addToResourcePolicy_creates_reuses_or_drops
      [of importedTopic publishStatement ?p "[publishStatement]"
          "''Imported''" "''arn:aws:sns:imported''" "''Imported''"
          "''App''" exampleProtocolValue exampleStatementValue]
  note synth_live = addToResourcePolicy_creates_reuses_or_drops
      [of liveTopic publishStatement ?p "[publishStatement]"
          "''MyTopic''" "''arn:aws:sns:topic''" "''MyTopic''"
          "''App''" exampleProtocolValue exampleStatementValue]
  have no_policy: "synthesize
       (Construct ''App'' None []
          [Topic_construct exampleProtocolValue exampleStatementValue
             (snd (addToResourcePolicy importedTopic publishStatement))])
       (snd (addToResourcePolicy importedTopic publishStatement)) =
     (Inr [], importedTopic)"
    using synth by (simp add: importedTopic_def)
  have one_policy: "fst (synthesize
       (Construct ''App'' None []
          [Topic_construct exampleProtocolValue exampleStatementValue
             (snd (addToResourcePolicy liveTopic publishStatement))])
       (snd (addToResourcePolicy liveTopic publishStatement))) =
     Inr [([''App'', ''MyTopic'', ''Policy''], ''TopicPolicy'',
           [(''topics'', JsArray [JsString ''arn:aws:sns:topic'']),
            (''policyDocument'', JsArray [exampleStatementValue publishStatement])])]"
    using synth_live by (simp add: liveTopic_def)
  have written: "exampleStatementValue publishStatement =
      JsObject [(''Action'', JsArray [JsString ''sns:Publish'']),
                (''Resource'', JsArray [JsString ''arn:aws:sns:topic''])]"
    by (simp add: exampleStatementValue_def publishStatement_def addResource_def addAction_def
        PolicyStatement_new_def)
  show ?thesis
    unfolding no_policy one_policy written
    by (simp add: first calls later dup drop with_policy del: addToResourcePolicy_calls.simps)
qed

lemma startsWith_shorter:
  "startsWith s p \<Longrightarrow> n \<le> length p \<Longrightarrow> take n s = take n p"
proof -
  assume a: "startsWith s p" and n: "n \<le> length p"
  have "take n s = take n (take (length p) s)" using n by (simp add: min_def)
  with a show ?thesis by (simp add: startsWith_def)
qed

lemma startsWith_https:
  assumes "startsWith url ''http://'' \<or> startsWith url ''https://''"
  shows "startsWith url ''https:'' = startsWith url ''https://''"
proof
  assume s: "startsWith url ''https:''"
  show "startsWith url ''https://''"
  proof (rule ccontr)
    assume "\<not> startsWith url ''https://''"
    with assms have h: "startsWith url ''http://''" by simp
    from startsWith_shorter [OF h, of 5] have "take 5 url = ''http:''" by simp
    moreover from startsWith_shorter [OF s, of 5] have "take 5 url = ''https''" by simp
    ultimately show False by simp
  qed
next
  assume s: "startsWith url ''https://''"
  from startsWith_shorter [OF s, of "length ''https:''"] show "startsWith url ''https:''"
    by (simp add: startsWith_def)
qed

lemma subscribeUrl_rejects:
  "\<not> startsWith url ''http://'' \<Longrightarrow> \<not> startsWith url ''https://'' \<Longrightarrow>
   subscribeUrl this name url raw =
     (Inl (Error ''URL must start with either http:// or https://''), this)"
  by (simp add: subscribeUrl_def)

lemma subscribeUrl_accepts:
  "startsWith url ''http://'' \<or> startsWith url ''https://'' \<Longrightarrow>
   subscribeUrl this name url raw =
     subscribe this name url (if startsWith url ''https:'' then Https else Http) raw"
  by (auto simp: subscribeUrl_def subscribe_def Let_def)

lemma subscribe_fresh:
  "tryFindChild (topicNode this) name = None \<Longrightarrow>
   subscribe this name e p raw =
     (Inr \<lparr> subscriptionName = name,
            subscriptionProps = \<lparr> topic = topicArn this, endpoint = e, protocol = p,
                                   rawMessageDelivery = raw \<rparr> \<rparr>,
      this\<lparr> topicNode := (topicNode this)\<lparr> children := children (topicNode this) @
        [(name, SubscriptionChild \<lparr> topic = topicArn this, endpoint = e, protocol = p,
                                    rawMessageDelivery = raw \<rparr>)] \<rparr> \<rparr>)"
  by (simp add: subscribe_def Subscription_new_def createChild_def tryFindChild_def
      map_of_eq_None_iff)

text \<open>
  C9. \<^verbatim>\<open>subscribeUrl\<close> fails, leaving the topic as it was, for every URL that starts with
  neither \<^verbatim>\<open>http://\<close> nor \<^verbatim>\<open>https://\<close>. For every other URL the call is the call of \<^verbatim>\<open>subscribe\<close> with
  the given name, the URL as endpoint and the protocol \<open>Https\<close> when the URL starts with
  \<^verbatim>\<open>https:\<close>, \<open>Http\<close> otherwise; for these URLs starting with \<^verbatim>\<open>https:\<close> is the same as starting
  with \<^verbatim>\<open>https://\<close>. Every subscription the call returns has that name, endpoint and
  protocol and is found under its name among the children of the topic, and the call
  does return it when no child of the topic has the name yet.
\<close>

theorem subscribeUrl_validates_and_selects_protocol:
  "(\<not> startsWith url ''http://'' \<and> \<not> startsWith url ''https://'' \<longrightarrow>
      subscribeUrl this name url raw =
        (Inl (Error ''URL must start with either http:// or https://''), this)) \<and>
   (startsWith url ''http://'' \<or> startsWith url ''https://'' \<longrightarrow>
      subscribeUrl this name url raw =
        subscribe this name url (if startsWith url ''https:'' then Https else Http) raw \<and>
      (startsWith url ''https:'' \<longleftrightarrow> startsWith url ''https://'') \<and>
      (\<forall>sub this'. subscribeUrl this name url raw = (Inr sub, this') \<longrightarrow>
         subscriptionName sub = name \<and> endpoint (subscriptionProps sub) = url \<and>
         topic (subscriptionProps sub) = topicArn this \<and>
         rawMessageDelivery (subscriptionProps sub) = raw \<and>
         (protocol (subscriptionProps sub) = Https \<longleftrightarrow> startsWith url ''https:'') \<and>
         (protocol (subscriptionProps sub) = Http \<longleftrightarrow> \<not> startsWith url ''https:'') \<and>
         tryFindChild (topicNode this') name = Some (SubscriptionChild (subscriptionProps sub))) \<and>
      (tryFindChild (topicNode this) name = None \<longrightarrow>
         subscribeUrl this name url raw =
           (Inr \<lparr> subscriptionName = name,
                  subscriptionProps =
                    \<lparr> topic = topicArn this, endpoint = url,
                      protocol = (if startsWith url ''https:'' then Https else Http),
                      rawMessageDelivery = raw \<rparr> \<rparr>,
            this\<lparr> topicNode := (topicNode this)\<lparr> children := children (topicNode this) @
              [(name, SubscriptionChild
                  \<lparr> topic = topicArn this, endpoint = url,
                    protocol = (if startsWith url ''https:'' then Https else Http),
                    rawMessageDelivery = raw \<rparr>)] \<rparr> \<rparr>)))"
proof (intro conjI impI allI)
  assume "\<not> startsWith url ''http://'' \<and> \<not> startsWith url ''https://''"
  then show "subscribeUrl this name url raw =
        (Inl (Error ''URL must start with either http:// or https://''), this)"
    by (simp add: subscribeUrl_rejects)
next
  assume "startsWith url ''http://'' \<or> startsWith url ''https://''"
  then show "subscribeUrl this name url raw =
        subscribe this name url (if startsWith url ''https:'' then Https else Http) raw"
    by (rule subscribeUrl_accepts)
next
  assume "startsWith url ''http://'' \<or> startsWith url ''https://''"
  then show "startsWith url ''https:'' \<longleftrightarrow> startsWith url ''https://''"
    by (rule startsWith_https)
next
  fix sub this'
  assume acc: "startsWith url ''http://'' \<or> startsWith url ''https://''"
    and res: "subscribeUrl this name url raw = (Inr sub, this')"
  let ?props = "\<lparr> topic = topicArn this, endpoint = url,
                      protocol = (if startsWith url ''https:'' then Https else Http),
                      rawMessageDelivery = raw \<rparr>"
  from res acc have fresh: "name \<notin> set (map fst (children (topicNode this)))"
    by (auto simp: subscribeUrl_accepts subscribe_def Subscription_new_def createChild_def
        split: if_splits)
  then have "tryFindChild (topicNode this) name = None"
    by (simp add: tryFindChild_def map_of_eq_None_iff)
  from subscribe_fresh [OF this, of url "if startsWith url ''https:'' then Https else Http" raw]
    res acc
  have sub: "sub = \<lparr> subscriptionName = name, subscriptionProps = ?props \<rparr>"
    and this': "this' = this\<lparr> topicNode := (topicNode this)\<lparr> children :=
        children (topicNode this) @ [(name, SubscriptionChild ?props)] \<rparr> \<rparr>"
    by (simp_all add: subscribeUrl_accepts)
  show "subscriptionName sub = name" "endpoint (subscriptionProps sub) = url"
    "topic (subscriptionProps sub) = topicArn this"
    "rawMessageDelivery (subscriptionProps sub) = raw"
    "protocol (subscriptionProps sub) = Https \<longleftrightarrow> startsWith url ''https:''"
    "protocol (subscriptionProps sub) = Http \<longleftrightarrow> \<not> startsWith url ''https:''"
    by (simp_all add: sub)
  show "tryFindChild (topicNode this') name = Some (SubscriptionChild (subscriptionProps sub))"
    using fresh by (simp add: sub this' tryFindChild_def map_add_Some_iff map_of_eq_None_iff)
next
  assume acc: "startsWith url ''http://'' \<or> startsWith url ''https://''"
    and fresh: "tryFindChild (topicNode this) name = None"
  show "subscribeUrl this name url raw =
           (Inr \<lparr> subscriptionName = name,
                  subscriptionProps =
                    \<lparr> topic = topicArn this, endpoint = url,
                      protocol = (if startsWith url ''https:'' then Https else Http),
                      rawMessageDelivery = raw \<rparr> \<rparr>,
            this\<lparr> topicNode := (topicNode this)\<lparr> children := children (topicNode this) @
              [(name, SubscriptionChild
                  \<lparr> topic = topicArn this, endpoint = url,
                    protocol = (if startsWith url ''https:'' then Https else Http),
                    rawMessageDelivery = raw \<rparr>)] \<rparr> \<rparr>)"
    using subscribe_fresh [OF fresh] acc by (simp add: subscribeUrl_accepts)
qed

theorem subscribeUrl_validates_and_selects_protocol_witness:
  "subscribeUrl liveTopic ''Hook'' ''ftp://example.com/hook'' None =
     (Inl (Error ''URL must start with either http:// or https://''), liveTopic) \<and>
   fst (subscribeUrl liveTopic ''Hook'' ''https://example.com/hook'' (Some True)) =
     Inr \<lparr> subscriptionName = ''Hook'',
           subscriptionProps = \<lparr> topic = ''arn:aws:sns:topic'',
             endpoint = ''https://example.com/hook'', protocol = Https,
             rawMessageDelivery = Some True \<rparr> \<rparr> \<and>
   fst (subscribeUrl liveTopic ''Hook'' ''http://example.com/hook'' None) =
     Inr \<lparr> subscriptionName = ''Hook'',
           subscriptionProps = \<lparr> topic = ''arn:aws:sns:topic'',
             endpoint = ''http://example.com/hook'', protocol = Http,
             rawMessageDelivery = None \<rparr> \<rparr>"
proof -
  have ftp: "\<not> startsWith ''ftp://example.com/hook'' ''http://'' \<and>
      \<not> startsWith ''ftp://example.com/hook'' ''https://''"
    by (simp add: startsWith_def)
  have https: "startsWith ''https://example.com/hook'' ''http://'' \<or>
      startsWith ''https://example.com/hook'' ''https://''"
    "startsWith ''https://example.com/hook'' ''https:''"
    by (simp_all add: startsWith_def)
  have http: "startsWith ''http://example.com/hook'' ''http://'' \<or>
      startsWith ''http://example.com/hook'' ''https://''"
    "\<not> startsWith ''http://example.com/hook'' ''https:''"
    by (simp_all add: startsWith_def)
  have fresh: "tryFindChild (topicNode liveTopic) ''Hook'' = None"
    "topicArn liveTopic = ''arn:aws:sns:topic''"
    by (simp_all add: liveTopic_def TopicBase_new_def tryFindChild_def)
  from subscribeUrl_validates_and_selects_protocol
      [of "''ftp://example.com/hook''" liveTopic "''Hook''" None] ftp
  have one: "subscribeUrl liveTopic ''Hook'' ''ftp://example.com/hook'' None =
     (Inl (Error ''URL must start with either http:// or https://''), liveTopic)"
    by blast
  from subscribeUrl_validates_and_selects_protocol
      [of "''https://example.com/hook''" liveTopic "''Hook''" "Some True"] https fresh
  have "subscribeUrl liveTopic ''Hook'' ''https://example.com/hook'' (Some True) =
     (Inr \<lparr> subscriptionName = ''Hook'',
            subscriptionProps =
              \<lparr> topic = topicArn liveTopic, endpoint = ''https://example.com/hook'',
                protocol = (if startsWith ''https://example.com/hook'' ''https:''
                            then Https else Http),
                rawMessageDelivery = Some True \<rparr> \<rparr>,
      liveTopic\<lparr> topicNode := (topicNode liveTopic)\<lparr> children :=
        children (topicNode liveTopic) @
        [(''Hook'', SubscriptionChild
            \<lparr> topic = topicArn liveTopic, endpoint = ''https://example.com/hook'',
              protocol = (if startsWith ''https://example.com/hook'' ''https:''
                          then Https else Http),
              rawMessageDelivery = Some True \<rparr>)] \<rparr> \<rparr>)"
    by blast
  then have two: "fst (subscribeUrl liveTopic ''Hook'' ''https://example.com/hook'' (Some True)) =
     Inr \<lparr> subscriptionName = ''Hook'',
           subscriptionProps = \<lparr> topic = ''arn:aws:sns:topic'',
             endpoint = ''https://example.com/hook'', protocol = Https,
             rawMessageDelivery = Some True \<rparr> \<rparr>"
    using https fresh by simp
  from subscribeUrl_validates_and_selects_protocol
      [of "''http://example.com/hook''" liveTopic "''Hook''" None] http fresh
  have "subscribeUrl liveTopic ''Hook'' ''http://example.com/hook'' None =
     (Inr \<lparr> subscriptionName = ''Hook'',
            subscriptionProps =
              \<lparr> topic = topicArn liveTopic, endpoint = ''http://example.com/hook'',
                protocol = (if startsWith ''http://example.com/hook'' ''https:''
                            then Https else Http),
                rawMessageDelivery = None \<rparr> \<rparr>,
      liveTopic\<lparr> topicNode := (topicNode liveTopic)\<lparr> children :=
        children (topicNode liveTopic) @
        [(''Hook'', SubscriptionChild
            \<lparr> topic = topicArn liveTopic, endpoint = ''http://example.com/hook'',
              protocol = (if startsWith ''http://example.com/hook'' ''https:''
                          then Https else Http),
              rawMessageDelivery = None \<rparr>)] \<rparr> \<rparr>)"
    by blast
  then have three: "fst (subscribeUrl liveTopic ''Hook'' ''http://example.com/hook'' None) =
     Inr \<lparr> subscriptionName = ''Hook'',
           subscriptionProps = \<lparr> topic = ''arn:aws:sns:topic'',
             endpoint = ''http://example.com/hook'', protocol = Http,
             rawMessageDelivery = None \<rparr> \<rparr>"
    using http fresh by simp
  from one two three show ?thesis by blast
qed

section \<open>Properties of the publishing task\<close>

lemma bind_object_plainKeys:
  "plainKeys [(''Message'', m), (''MessageStructure'', ms), (''Subject'', sj)]"
  by (simp add: plainKeys_def endsWith_def)

lemma rendersFields_absent:
  assumes r: "rendersFields render" and p: "plainKeys obj"
    and no: "\<forall>f \<in> set obj. snd f \<noteq> JsUndefined \<longrightarrow> k \<noteq> fst f \<and> k \<noteq> fst f @ ''.$''"
  shows "render obj k = None"
proof (rule ccontr)
  assume "render obj k \<noteq> None"
  with r p have "\<exists>f \<in> set obj. snd f \<noteq> JsUndefined \<and> (k = fst f \<or> k = fst f @ ''.$'')"
    unfolding rendersFields_def by blast
  with no show False by blast
qed

lemma rendersFields_json:
  assumes r: "rendersFields render" and p: "plainKeys obj"
    and j: "map_of obj k = Some (JsString ''json'')"
  shows "render obj k = Some (JsString ''json'')"
  using r p j unfolding rendersFields_def by blast

lemma exampleRenderObject_rendersFields: "rendersFields exampleRenderObject"
  unfolding rendersFields_def exampleRenderObject_def plainKeys_def
proof (intro allI impI conjI)
  fix obj :: "(string \<times> JsValue) list" and k
  assume "map_of (filter (\<lambda>f. snd f \<noteq> JsUndefined) obj) k \<noteq> None"
  then obtain v where "map_of (filter (\<lambda>f. snd f \<noteq> JsUndefined) obj) k = Some v" by blast
  then have "(k, v) \<in> set (filter (\<lambda>f. snd f \<noteq> JsUndefined) obj)" by (rule map_of_SomeD)
  then show "\<exists>f \<in> set obj. snd f \<noteq> JsUndefined \<and> (k = fst f \<or> k = fst f @ ''.$'')"
    by force
next
  fix obj :: "(string \<times> JsValue) list" and k
  assume d: "distinct (map fst obj) \<and> list_all (\<lambda>f. \<not> endsWith (fst f) ''.$'') obj"
    and j: "map_of obj k = Some (JsString ''json'')"
  from j have "(k, JsString ''json'') \<in> set obj" by (rule map_of_SomeD)
  then have "(k, JsString ''json'') \<in> set (filter (\<lambda>f. snd f \<noteq> JsUndefined) obj)" by simp
  moreover from d have "distinct (map fst (filter (\<lambda>f. snd f \<noteq> JsUndefined) obj))"
    by (simp add: distinct_map_filter)
  ultimately show "map_of (filter (\<lambda>f. snd f \<noteq> JsUndefined) obj) k = Some (JsString ''json'')"
    by (rule map_of_is_SomeI [rotated])
qed

text \<open>
  C10. \<^verbatim>\<open>PublishToTopic.bind\<close> returns a configuration whose resource ARN is
  \<^verbatim>\<open>arn:aws:states:::sns:publish\<close> and whose only policy statement allows \<^verbatim>\<open>sns:Publish\<close> on the
  ARN of the topic. When the renderer renders only fields that are not undefined, under
  their key or that key with the path suffix, and keeps the literal \<^verbatim>\<open>json\<close>, the parameter
  \<^verbatim>\<open>TopicArn\<close> is the ARN of the topic, and the parameter \<^verbatim>\<open>MessageStructure\<close> is \<^verbatim>\<open>json\<close> when
  \<^verbatim>\<open>messagePerSubscriptionType\<close> is true and is left out otherwise.
\<close>

theorem PublishToTopic_bind_config:
  "resourceArn (PublishToTopic_bind render this) = ''arn:aws:states:::sns:publish'' \<and>
   policyStatements (PublishToTopic_bind render this) =
     [\<lparr> stmtEffect = Allow, stmtActions = [''sns:Publish''],
        stmtResources = [topicArn (publishTopic this)], stmtPrincipals = [],
        stmtConditions = [] \<rparr>] \<and>
   (rendersFields render \<longrightarrow>
      parameters (PublishToTopic_bind render this) ''TopicArn'' =
        Some (JsString (topicArn (publishTopic this))) \<and>
      (messagePerSubscriptionType (publishProps this) = Some True \<longrightarrow>
         parameters (PublishToTopic_bind render this) ''MessageStructure'' =
           Some (JsString ''json'')) \<and>
      (messagePerSubscriptionType (publishProps this) \<noteq> Some True \<longrightarrow>
         parameters (PublishToTopic_bind render this) ''MessageStructure'' = None))"
proof (intro conjI impI)
  show "resourceArn (PublishToTopic_bind render this) = ''arn:aws:states:::sns:publish''"
    by (simp add: PublishToTopic_bind_def)
  show "policyStatements (PublishToTopic_bind render this) =
     [\<lparr> stmtEffect = Allow, stmtActions = [''sns:Publish''],
        stmtResources = [topicArn (publishTopic this)], stmtPrincipals = [],
        stmtConditions = [] \<rparr>]"
    by (simp add: PublishToTopic_bind_def addResource_def addAction_def PolicyStatement_new_def)
next
  assume r: "rendersFields render"
  let ?obj = "[(''Message'', taskInputValue (message (publishProps this))),
            (''MessageStructure'',
               if messagePerSubscriptionType (publishProps this) = Some True
               then JsString ''json'' else JsUndefined),
            (''Subject'',
               case subject (publishProps this) of
                 None \<Rightarrow> JsUndefined
               | Some s \<Rightarrow> JsString s)]"
  have "render ?obj ''TopicArn'' = None"
    by (rule rendersFields_absent [OF r bind_object_plainKeys]) simp
  then show "parameters (PublishToTopic_bind render this) ''TopicArn'' =
        Some (JsString (topicArn (publishTopic this)))"
    by (simp add: PublishToTopic_bind_def map_add_def)
next
  assume r: "rendersFields render"
    and t: "messagePerSubscriptionType (publishProps this) = Some True"
  let ?obj = "[(''Message'', taskInputValue (message (publishProps this))),
            (''MessageStructure'', JsString ''json''),
            (''Subject'',
               case subject (publishProps this) of
                 None \<Rightarrow> JsUndefined
               | Some s \<Rightarrow> JsString s)]"
  have "render ?obj ''MessageStructure'' = Some (JsString ''json'')"
    by (rule rendersFields_json [OF r bind_object_plainKeys]) simp
  then show "parameters (PublishToTopic_bind render this) ''MessageStructure'' =
           Some (JsString ''json'')"
    using t by (simp add: PublishToTopic_bind_def map_add_def)
next
  assume r: "rendersFields render"
    and f: "messagePerSubscriptionType (publishProps this) \<noteq> Some True"
  let ?obj = "[(''Message'', taskInputValue (message (publishProps this))),
            (''MessageStructure'', JsUndefined),
            (''Subject'',
               case subject (publishProps this) of
                 None \<Rightarrow> JsUndefined
               | Some s \<Rightarrow> JsString s)]"
  have "render ?obj ''MessageStructure'' = None"
    by (rule rendersFields_absent [OF r bind_object_plainKeys]) simp
  then show "parameters (PublishToTopic_bind render this) ''MessageStructure'' = None"
    using f by (simp add: PublishToTopic_bind_def map_add_def)
qed

theorem PublishToTopic_bind_config_witness:
  "parameters (PublishToTopic_bind exampleRenderObject examplePublishPerType) ''TopicArn'' =
     Some (JsString ''arn:aws:sns:topic'') \<and>
   parameters (PublishToTopic_bind exampleRenderObject examplePublishPerType) ''MessageStructure'' =
     Some (JsString ''json'') \<and>
   parameters (PublishToTopic_bind exampleRenderObject examplePublishPlain) ''MessageStructure'' =
     None"
proof -
  have flags: "messagePerSubscriptionType (publishProps examplePublishPerType) = Some True"
    "messagePerSubscriptionType (publishProps examplePublishPlain) \<noteq> Some True"
    "topicArn (publishTopic examplePublishPerType) = ''arn:aws:sns:topic''"
    by (simp_all add: examplePublishPerType_def examplePublishPlain_def liveTopic_def
        TopicBase_new_def)
  from PublishToTopic_bind_config [of exampleRenderObject examplePublishPerType]
    PublishToTopic_bind_config [of exampleRenderObject examplePublishPlain]
    exampleRenderObject_rendersFields flags
  show ?thesis by simp
qed

section \<open>Properties of the merging of permission statements\<close>

lemma set_unionResources: "set (unionResources xs ys) = set xs \<union> set ys"
  by (auto simp: unionResources_def)

lemma sameTemplate_merged:
  "sameTemplate (t\<lparr> stmtResources := r \<rparr>) u = sameTemplate t u"
  "sameTemplate u (t\<lparr> stmtResources := r \<rparr>) = sameTemplate u t"
  by (simp_all add: sameTemplate_def)

lemma attachStatement_merges:
  "\<exists>t \<in> set ps. sameTemplate t s \<Longrightarrow> length (attachStatement ps s) = length ps"
  by (induction ps) auto

lemma attachStatement_appends:
  "\<forall>t \<in> set ps. \<not> sameTemplate t s \<Longrightarrow> attachStatement ps s = ps @ [s]"
  by (induction ps) auto

lemma attachStatement_resources:
  "(\<Union>u \<in> set (attachStatement ps s). set (stmtResources u)) =
   (\<Union>u \<in> set ps. set (stmtResources u)) \<union> set (stmtResources s)"
  by (induction ps) (auto simp: set_unionResources)

lemma attachStatement_list_all:
  "list_all (\<lambda>u. \<not> sameTemplate t u) ts \<Longrightarrow> \<not> sameTemplate t s \<Longrightarrow>
   list_all (\<lambda>u. \<not> sameTemplate t u) (attachStatement ts s)"
  by (induction ts) (auto simp: sameTemplate_merged)

lemma attachStatement_distinctTemplates:
  "distinctTemplates ps \<Longrightarrow> distinctTemplates (attachStatement ps s)"
proof (induction ps)
  case Nil
  then show ?case by simp
next
  case (Cons t ts)
  show ?case
  proof (cases "sameTemplate t s")
    case True
    with Cons.prems show ?thesis by (simp add: sameTemplate_merged)
  next
    case False
    with Cons show ?thesis by (simp add: attachStatement_list_all)
  qed
qed

lemmas statement_defs = passRoleOn_def changeSetPermissionsOn_def sameTemplate_def
  sameCondition_def sameEntries_def
  unionResources_def setCondition_def addAction_def addResource_def PolicyStatement_new_def

text \<open>
  The statements that the pipeline test expects for two actions with the same change-set
  name: one statement for \<^verbatim>\<open>iam:PassRole\<close> with both roles, one for the change-set permissions
  with both stacks.
\<close>

lemma pipeline_test_expected_statements:
  "foldl attachStatement []
     [passRoleOn ''PipelineTestStageActionARole9283FBE3.Arn'',
      changeSetPermissionsOn ''arn:aws:cloudformation:stack/StackA/*'',
      passRoleOn ''PipelineTestStageActionBRoleCABC8FA5.Arn'',
      changeSetPermissionsOn ''arn:aws:cloudformation:stack/StackB/*''] =
   [\<lparr> stmtEffect = Allow, stmtActions = [''iam:PassRole''],
      stmtResources = [''PipelineTestStageActionARole9283FBE3.Arn'',
                       ''PipelineTestStageActionBRoleCABC8FA5.Arn''],
      stmtPrincipals = [], stmtConditions = [] \<rparr>,
    \<lparr> stmtEffect = Allow,
      stmtActions = [''cloudformation:CreateChangeSet'', ''cloudformation:DeleteChangeSet'',
                     ''cloudformation:DescribeChangeSet'', ''cloudformation:DescribeStacks''],
      stmtResources = [''arn:aws:cloudformation:stack/StackA/*'',
                       ''arn:aws:cloudformation:stack/StackB/*''],
      stmtPrincipals = [],
      stmtConditions = [(''StringEqualsIfExists'',
                         [(''cloudformation:ChangeSetName'', ''MyChangeSet'')])] \<rparr>]"
  by (simp add: statement_defs)

text \<open>
  The computed comparison of two conditions is the equality of the mappings they denote,
  so it does not depend on the order in which operators or keys were written.
\<close>

lemma sameEntries_iff: "sameEntries xs ys = (map_of xs = map_of ys)"
proof
  assume a: "sameEntries xs ys"
  show "map_of xs = map_of ys"
  proof
    fix k
    show "map_of xs k = map_of ys k"
    proof (cases "k \<in> set (map fst xs)")
      case True
      with a show ?thesis unfolding sameEntries_def list_all_iff by blast
    next
      case False
      moreover from a False have "k \<notin> set (map fst ys)" by (simp add: sameEntries_def)
      ultimately have "map_of xs k = None" "map_of ys k = None"
        by (simp_all add: map_of_eq_None_iff)
      then show ?thesis by simp
    qed
  qed
next
  assume a: "map_of xs = map_of ys"
  then have "dom (map_of xs) = dom (map_of ys)" by simp
  then have "set (map fst xs) = set (map fst ys)" by (simp add: dom_map_of_conv_image_fst)
  with a show "sameEntries xs ys" by (simp add: sameEntries_def list_all_iff)
qed

lemma sameCondition_iff: "sameCondition cs ds = (conditionMap cs = conditionMap ds)"
proof
  assume a: "sameCondition cs ds"
  show "conditionMap cs = conditionMap ds"
  proof
    fix k
    show "conditionMap cs k = conditionMap ds k"
    proof (cases "k \<in> set (map fst cs)")
      case True
      with a have "case (map_of cs k, map_of ds k) of
                   (Some xs, Some ys) \<Rightarrow> sameEntries xs ys | _ \<Rightarrow> False"
        unfolding sameCondition_def list_all_iff by blast
      then show ?thesis
        by (auto simp: conditionMap_def sameEntries_iff split: option.splits)
    next
      case False
      moreover from a False have "k \<notin> set (map fst ds)" by (simp add: sameCondition_def)
      ultimately have "map_of cs k = None" "map_of ds k = None"
        by (simp_all add: map_of_eq_None_iff)
      then show ?thesis by (simp add: conditionMap_def)
    qed
  qed
next
  assume a: "conditionMap cs = conditionMap ds"
  have d: "\<And>k. (map_of cs k = None) = (map_of ds k = None)"
  proof -
    fix k
    from a have "conditionMap cs k = conditionMap ds k" by simp
    then show "(map_of cs k = None) = (map_of ds k = None)"
      by (auto simp: conditionMap_def)
  qed
  then have "dom (map_of cs) = dom (map_of ds)" by (auto simp: dom_def)
  then have s: "set (map fst cs) = set (map fst ds)" by (simp add: dom_map_of_conv_image_fst)
  have "\<And>k. k \<in> set (map fst cs) \<Longrightarrow> (case (map_of cs k, map_of ds k) of
                   (Some xs, Some ys) \<Rightarrow> sameEntries xs ys | _ \<Rightarrow> False)"
  proof -
    fix k assume k: "k \<in> set (map fst cs)"
    from a have e: "conditionMap cs k = conditionMap ds k" by simp
    from k have "map_of cs k \<noteq> None" by (simp add: map_of_eq_None_iff)
    with e show "(case (map_of cs k, map_of ds k) of
                   (Some xs, Some ys) \<Rightarrow> sameEntries xs ys | _ \<Rightarrow> False)"
      by (auto simp: conditionMap_def sameEntries_iff split: option.splits)
  qed
  with s show "sameCondition cs ds" by (simp add: sameCondition_def list_all_iff)
qed

lemma sameTemplate_iff:
  "sameTemplate s t =
     (stmtEffect s = stmtEffect t \<and> set (stmtActions s) = set (stmtActions t) \<and>
      conditionMap (stmtConditions s) = conditionMap (stmtConditions t))"
  by (simp add: sameTemplate_def sameCondition_iff)

lemma attachStatement_first_match:
  "\<forall>u \<in> set ps. \<not> sameTemplate u s \<Longrightarrow> sameTemplate t s \<Longrightarrow>
   attachStatement (ps @ t # qs) s =
     ps @ t\<lparr> stmtResources := unionResources (stmtResources t) (stmtResources s) \<rparr> # qs"
  by (induction ps) simp_all

text \<open>
  C6. Attaching two statements with identical effect, action set and condition to an empty
  policy gives a single statement, the first with the union of both resource lists. In
  general, a statement is merged into the first statement of the policy that has its
  effect, action set and condition: that statement gets the union of both resource lists,
  every other statement of the policy stays as it was, in its place, and the policy keeps
  its length. A statement that no statement of the policy matches is appended. No two
  statements of the policy ever have the same effect, action set and condition, and the
  resources of the policy are those it had and those of the statement. Two statements
  have the same effect, action set and condition exactly when the effects are equal, the
  actions are equal as sets and the conditions are equal as mappings, whatever the order
  in which they were written.
\<close>

theorem statements_with_same_template_are_merged:
  "(sameTemplate s1 s2 \<longrightarrow>
      attachStatement (attachStatement [] s1) s2 =
        [s1\<lparr> stmtResources := unionResources (stmtResources s1) (stmtResources s2) \<rparr>] \<and>
      set (unionResources (stmtResources s1) (stmtResources s2)) =
        set (stmtResources s1) \<union> set (stmtResources s2)) \<and>
   ((\<exists>t \<in> set ps. sameTemplate t s) \<longrightarrow> length (attachStatement ps s) = length ps) \<and>
   ((\<forall>t \<in> set ps. \<not> sameTemplate t s) \<longrightarrow> attachStatement ps s = ps @ [s]) \<and>
   (distinctTemplates ps \<longrightarrow> distinctTemplates (attachStatement ps s)) \<and>
   (\<Union>u \<in> set (attachStatement ps s). set (stmtResources u)) =
     (\<Union>u \<in> set ps. set (stmtResources u)) \<union> set (stmtResources s) \<and>
   ((\<forall>u \<in> set ps. \<not> sameTemplate u s) \<and> sameTemplate t s \<longrightarrow>
      attachStatement (ps @ t # qs) s =
        ps @ t\<lparr> stmtResources := unionResources (stmtResources t) (stmtResources s) \<rparr> # qs) \<and>
   sameTemplate s1 s2 =
     (stmtEffect s1 = stmtEffect s2 \<and> set (stmtActions s1) = set (stmtActions s2) \<and>
      conditionMap (stmtConditions s1) = conditionMap (stmtConditions s2))"
proof (intro conjI impI)
  assume "sameTemplate s1 s2"
  then show "attachStatement (attachStatement [] s1) s2 =
        [s1\<lparr> stmtResources := unionResources (stmtResources s1) (stmtResources s2) \<rparr>]"
    by simp
next
  show "set (unionResources (stmtResources s1) (stmtResources s2)) =
        set (stmtResources s1) \<union> set (stmtResources s2)"
    by (rule set_unionResources)
next
  assume "\<exists>t \<in> set ps. sameTemplate t s"
  then show "length (attachStatement ps s) = length ps"
    by (rule attachStatement_merges)
next
  assume "\<forall>t \<in> set ps. \<not> sameTemplate t s"
  then show "attachStatement ps s = ps @ [s]"
    by (rule attachStatement_appends)
next
  assume "distinctTemplates ps"
  then show "distinctTemplates (attachStatement ps s)"
    by (rule attachStatement_distinctTemplates)
next
  show "(\<Union>u \<in> set (attachStatement ps s). set (stmtResources u)) =
     (\<Union>u \<in> set ps. set (stmtResources u)) \<union> set (stmtResources s)"
    by (rule attachStatement_resources)
next
  assume "(\<forall>u \<in> set ps. \<not> sameTemplate u s) \<and> sameTemplate t s"
  then show "attachStatement (ps @ t # qs) s =
        ps @ t\<lparr> stmtResources := unionResources (stmtResources t) (stmtResources s) \<rparr> # qs"
    by (simp add: attachStatement_first_match)
next
  show "sameTemplate s1 s2 =
     (stmtEffect s1 = stmtEffect s2 \<and> set (stmtActions s1) = set (stmtActions s2) \<and>
      conditionMap (stmtConditions s1) = conditionMap (stmtConditions s2))"
    by (rule sameTemplate_iff)
qed

theorem statements_with_same_template_are_merged_witness:
  "attachStatement (attachStatement [] (changeSetPermissionsOn ''arn:aws:cloudformation:stack/StackA/*''))
       (changeSetPermissionsOn ''arn:aws:cloudformation:stack/StackB/*'') =
     [\<lparr> stmtEffect = Allow,
        stmtActions = [''cloudformation:CreateChangeSet'', ''cloudformation:DeleteChangeSet'',
                       ''cloudformation:DescribeChangeSet'', ''cloudformation:DescribeStacks''],
        stmtResources = [''arn:aws:cloudformation:stack/StackA/*'',
                         ''arn:aws:cloudformation:stack/StackB/*''],
        stmtPrincipals = [],
        stmtConditions = [(''StringEqualsIfExists'',
                           [(''cloudformation:ChangeSetName'', ''MyChangeSet'')])] \<rparr>] \<and>
   length (attachStatement [passRoleOn ''RoleA.Arn'', changeSetPermissionsOn ''StackA'']
             (passRoleOn ''RoleB.Arn'')) = 2 \<and>
   attachStatement [passRoleOn ''RoleA.Arn''] (changeSetPermissionsOn ''StackA'') =
     [passRoleOn ''RoleA.Arn'', changeSetPermissionsOn ''StackA''] \<and>
   distinctTemplates (attachStatement [passRoleOn ''RoleA.Arn'', changeSetPermissionsOn ''StackA'']
                        (passRoleOn ''RoleB.Arn'')) \<and>
   attachStatement [passRoleOn ''RoleA.Arn'', changeSetPermissionsOn ''StackA'',
                    passRoleOn ''RoleC.Arn'']
       (changeSetPermissionsOn ''StackB'') =
     [\<lparr> stmtEffect = Allow, stmtActions = [''iam:PassRole''],
        stmtResources = [''RoleA.Arn''], stmtPrincipals = [], stmtConditions = [] \<rparr>,
      \<lparr> stmtEffect = Allow,
        stmtActions = [''cloudformation:CreateChangeSet'', ''cloudformation:DeleteChangeSet'',
                       ''cloudformation:DescribeChangeSet'', ''cloudformation:DescribeStacks''],
        stmtResources = [''StackA'', ''StackB''],
        stmtPrincipals = [],
        stmtConditions = [(''StringEqualsIfExists'',
                           [(''cloudformation:ChangeSetName'', ''MyChangeSet'')])] \<rparr>,
      \<lparr> stmtEffect = Allow, stmtActions = [''iam:PassRole''],
        stmtResources = [''RoleC.Arn''], stmtPrincipals = [], stmtConditions = [] \<rparr>] \<and>
   attachStatement
       [conditionedOn [(''ArnEquals'', [(''aws:SourceArn'', ''arn:aws:sns:topic'')]),
                       (''StringEquals'', [(''aws:SourceAccount'', ''1234''),
                                           (''aws:SourceOwner'', ''me'')])]
          ''arn:aws:sqs:queueA'']
       (conditionedOn [(''StringEquals'', [(''aws:SourceOwner'', ''me''),
                                           (''aws:SourceAccount'', ''1234'')]),
                       (''ArnEquals'', [(''aws:SourceArn'', ''arn:aws:sns:topic'')])]
          ''arn:aws:sqs:queueB'') =
     [\<lparr> stmtEffect = Allow, stmtActions = [''sqs:SendMessage''],
        stmtResources = [''arn:aws:sqs:queueA'', ''arn:aws:sqs:queueB''],
        stmtPrincipals = [],
        stmtConditions = [(''ArnEquals'', [(''aws:SourceArn'', ''arn:aws:sns:topic'')]),
                          (''StringEquals'', [(''aws:SourceAccount'', ''1234''),
                                              (''aws:SourceOwner'', ''me'')])] \<rparr>]"
proof -
  let ?a = "changeSetPermissionsOn ''arn:aws:cloudformation:stack/StackA/*''"
  let ?b = "changeSetPermissionsOn ''arn:aws:cloudformation:stack/StackB/*''"
  let ?ps = "[passRoleOn ''RoleA.Arn'', changeSetPermissionsOn ''StackA'']"
  let ?c = "conditionedOn [(''ArnEquals'', [(''aws:SourceArn'', ''arn:aws:sns:topic'')]),
                       (''StringEquals'', [(''aws:SourceAccount'', ''1234''),
                                           (''aws:SourceOwner'', ''me'')])]
          ''arn:aws:sqs:queueA''"
  let ?d = "conditionedOn [(''StringEquals'', [(''aws:SourceOwner'', ''me''),
                                           (''aws:SourceAccount'', ''1234'')]),
                       (''ArnEquals'', [(''aws:SourceArn'', ''arn:aws:sns:topic'')])]
          ''arn:aws:sqs:queueB''"
  have same: "sameTemplate ?a ?b"
    by (simp add: statement_defs)
  have merged: "\<exists>t \<in> set ?ps. sameTemplate t (passRoleOn ''RoleB.Arn'')"
    by (simp add: statement_defs)
  have other: "\<forall>t \<in> set [passRoleOn ''RoleA.Arn'']. \<not> sameTemplate t (changeSetPermissionsOn ''StackA'')"
    by (simp add: statement_defs)
  have apart: "distinctTemplates ?ps"
    by (simp add: statement_defs)
  have before: "\<forall>u \<in> set [passRoleOn ''RoleA.Arn'']. \<not> sameTemplate u (changeSetPermissionsOn ''StackB'')"
    by (simp add: statement_defs)
  have here: "sameTemplate (changeSetPermissionsOn ''StackA'') (changeSetPermissionsOn ''StackB'')"
    by (simp add: statement_defs)
  have reordered: "sameTemplate ?c ?d"
    by (auto simp: statement_defs conditionedOn_def)
  from statements_with_same_template_are_merged
      [of ?a ?b ?ps "passRoleOn ''RoleB.Arn''" ?a "[]"]
    same merged apart
  have one: "attachStatement (attachStatement [] ?a) ?b =
      [?a\<lparr> stmtResources := unionResources (stmtResources ?a) (stmtResources ?b) \<rparr>]"
    and two: "length (attachStatement ?ps (passRoleOn ''RoleB.Arn'')) = length ?ps"
    and four: "distinctTemplates (attachStatement ?ps (passRoleOn ''RoleB.Arn''))"
    by blast+
  from statements_with_same_template_are_merged
      [of ?a ?b "[passRoleOn ''RoleA.Arn'']" "changeSetPermissionsOn ''StackA''" ?a "[]"] other
  have three: "attachStatement [passRoleOn ''RoleA.Arn''] (changeSetPermissionsOn ''StackA'') =
      [passRoleOn ''RoleA.Arn''] @ [changeSetPermissionsOn ''StackA'']"
    by blast
  from statements_with_same_template_are_merged
      [of ?a ?b "[passRoleOn ''RoleA.Arn'']" "changeSetPermissionsOn ''StackB''"
          "changeSetPermissionsOn ''StackA''" "[passRoleOn ''RoleC.Arn'']"] before here
  have five: "attachStatement
        ([passRoleOn ''RoleA.Arn''] @ changeSetPermissionsOn ''StackA'' # [passRoleOn ''RoleC.Arn''])
        (changeSetPermissionsOn ''StackB'') =
      [passRoleOn ''RoleA.Arn''] @
      (changeSetPermissionsOn ''StackA'')\<lparr> stmtResources :=
          unionResources (stmtResources (changeSetPermissionsOn ''StackA''))
            (stmtResources (changeSetPermissionsOn ''StackB'')) \<rparr> # [passRoleOn ''RoleC.Arn'']"
    by blast
  have no_statement: "\<forall>u \<in> set ([] :: PolicyStatement list). \<not> sameTemplate u ?d"
    by simp
  from statements_with_same_template_are_merged [of ?a ?b "[]" ?d ?c "[]"] no_statement reordered
  have six: "attachStatement ([] @ ?c # []) ?d =
      [] @ ?c\<lparr> stmtResources := unionResources (stmtResources ?c) (stmtResources ?d) \<rparr> # []"
    by blast
  have merged_value: "?a\<lparr> stmtResources := unionResources (stmtResources ?a) (stmtResources ?b) \<rparr> =
      \<lparr> stmtEffect = Allow,
        stmtActions = [''cloudformation:CreateChangeSet'', ''cloudformation:DeleteChangeSet'',
                       ''cloudformation:DescribeChangeSet'', ''cloudformation:DescribeStacks''],
        stmtResources = [''arn:aws:cloudformation:stack/StackA/*'',
                         ''arn:aws:cloudformation:stack/StackB/*''],
        stmtPrincipals = [],
        stmtConditions = [(''StringEqualsIfExists'',
                           [(''cloudformation:ChangeSetName'', ''MyChangeSet'')])] \<rparr>"
    by (simp add: statement_defs)
  have five_value: "[passRoleOn ''RoleA.Arn''] @
      (changeSetPermissionsOn ''StackA'')\<lparr> stmtResources :=
          unionResources (stmtResources (changeSetPermissionsOn ''StackA''))
            (stmtResources (changeSetPermissionsOn ''StackB'')) \<rparr> # [passRoleOn ''RoleC.Arn''] =
     [\<lparr> stmtEffect = Allow, stmtActions = [''iam:PassRole''],
        stmtResources = [''RoleA.Arn''], stmtPrincipals = [], stmtConditions = [] \<rparr>,
      \<lparr> stmtEffect = Allow,
        stmtActions = [''cloudformation:CreateChangeSet'', ''cloudformation:DeleteChangeSet'',
                       ''cloudformation:DescribeChangeSet'', ''cloudformation:DescribeStacks''],
        stmtResources = [''StackA'', ''StackB''],
        stmtPrincipals = [],
        stmtConditions = [(''StringEqualsIfExists'',
                           [(''cloudformation:ChangeSetName'', ''MyChangeSet'')])] \<rparr>,
      \<lparr> stmtEffect = Allow, stmtActions = [''iam:PassRole''],
        stmtResources = [''RoleC.Arn''], stmtPrincipals = [], stmtConditions = [] \<rparr>]"
    by (simp add: statement_defs)
  have six_value: "[] @ ?c\<lparr> stmtResources := unionResources (stmtResources ?c) (stmtResources ?d) \<rparr> # [] =
     [\<lparr> stmtEffect = Allow, stmtActions = [''sqs:SendMessage''],
        stmtResources = [''arn:aws:sqs:queueA'', ''arn:aws:sqs:queueB''],
        stmtPrincipals = [],
        stmtConditions = [(''ArnEquals'', [(''aws:SourceArn'', ''arn:aws:sns:topic'')]),
                          (''StringEquals'', [(''aws:SourceAccount'', ''1234''),
                                              (''aws:SourceOwner'', ''me'')])] \<rparr>]"
    by (simp add: statement_defs conditionedOn_def)
  have lists: "[passRoleOn ''RoleA.Arn''] @ changeSetPermissionsOn ''StackA'' # [passRoleOn ''RoleC.Arn''] =
      [passRoleOn ''RoleA.Arn'', changeSetPermissionsOn ''StackA'', passRoleOn ''RoleC.Arn'']"
    "[] @ ?c # [] = [?c]"
    by simp_all
  from five five_value lists have five': "attachStatement
        [passRoleOn ''RoleA.Arn'', changeSetPermissionsOn ''StackA'', passRoleOn ''RoleC.Arn'']
        (changeSetPermissionsOn ''StackB'') =
     [\<lparr> stmtEffect = Allow, stmtActions = [''iam:PassRole''],
        stmtResources = [''RoleA.Arn''], stmtPrincipals = [], stmtConditions = [] \<rparr>,
      \<lparr> stmtEffect = Allow,
        stmtActions = [''cloudformation:CreateChangeSet'', ''cloudformation:DeleteChangeSet'',
                       ''cloudformation:DescribeChangeSet'', ''cloudformation:DescribeStacks''],
        stmtResources = [''StackA'', ''StackB''],
        stmtPrincipals = [],
        stmtConditions = [(''StringEqualsIfExists'',
                           [(''cloudformation:ChangeSetName'', ''MyChangeSet'')])] \<rparr>,
      \<lparr> stmtEffect = Allow, stmtActions = [''iam:PassRole''],
        stmtResources = [''RoleC.Arn''], stmtPrincipals = [], stmtConditions = [] \<rparr>]"
    by (simp only:)
  from six six_value lists have six': "attachStatement [?c] ?d =
     [\<lparr> stmtEffect = Allow, stmtActions = [''sqs:SendMessage''],
        stmtResources = [''arn:aws:sqs:queueA'', ''arn:aws:sqs:queueB''],
        stmtPrincipals = [],
        stmtConditions = [(''ArnEquals'', [(''aws:SourceArn'', ''arn:aws:sns:topic'')]),
                          (''StringEquals'', [(''aws:SourceAccount'', ''1234''),
                                              (''aws:SourceOwner'', ''me'')])] \<rparr>]"
    by (simp only:)
  from one two three four merged_value five' six' show ?thesis
    by (simp del: attachStatement.simps distinctTemplates.simps)
qed

end
